theory Spec2Isabelle
  imports Complex_Main "HOL-Library.Word" "HOL-Library.Char_ord" "HOL-Library.List_Lexorder"
begin

section \<open>Python values and exceptions\<close>

text \<open>
  The importer is one Python method, \<open>ImportQuakeWad.execute\<close>, that reads archive files
  byte by byte and fills Blender's data collections. Every exception the code can raise
  is a value of \<open>error\<close>; no \<open>try\<close> surrounds the parsing, so an exception leaves
  \<open>execute\<close> and ends the whole import.
\<close>

datatype error =
    StructError          \<comment> \<open>\<open>struct.unpack\<close> on a buffer of the wrong length\<close>
  | IndexError           \<comment> \<open>string, bytes or list index out of range\<close>
  | KeyError             \<comment> \<open>missing dictionary key\<close>
  | AttributeError       \<comment> \<open>attribute access on \<open>None\<close>\<close>
  | OSError              \<comment> \<open>\<open>seek\<close> to a negative offset\<close>
  | ValueError           \<comment> \<open>\<open>read\<close> of a length below \<open>-1\<close>\<close>
  | UnicodeDecodeError   \<comment> \<open>\<open>decode('ascii')\<close> of a byte above 127\<close>

type_synonym byte = "8 word"

text \<open>Sequencing of computations that may raise.\<close>

definition bind :: "error + 'a \<Rightarrow> ('a \<Rightarrow> error + 'b) \<Rightarrow> error + 'b" where
  "bind m f = (case m of Inl e \<Rightarrow> Inl e | Inr x \<Rightarrow> f x)"

fun foldM :: "('a \<Rightarrow> 's \<Rightarrow> error + 's) \<Rightarrow> 'a list \<Rightarrow> 's \<Rightarrow> error + 's" where
  "foldM f [] s = Inr s"
| "foldM f (x # xs) s = bind (f x s) (foldM f xs)"

section \<open>Strings\<close>

text \<open>
  \<open>str.lower\<close>, \<open>str.startswith\<close>, \<open>str.endswith\<close>, \<open>str.replace\<close> of one character,
  \<open>str.rfind\<close> of one character, \<open>str.strip\<close> of a character set, \<open>str.split\<close> at one
  character and the slices \<open>s[:k]\<close>, \<open>s[k:]\<close> for an integer \<open>k\<close> that may be negative.
  Strings are lists of 8-bit characters; lump names are ASCII (they come out of
  \<open>decode('ascii')\<close>), where \<open>lower\<close> only moves \<open>A..Z\<close>.
\<close>

definition lower_char :: "char \<Rightarrow> char" where
  "lower_char c = (let n = (of_char c :: nat) in if 65 \<le> n \<and> n \<le> 90 then char_of (n + 32) else c)"

definition lower :: "string \<Rightarrow> string" where
  "lower s = map lower_char s"

definition startswith :: "string \<Rightarrow> string \<Rightarrow> bool" where
  "startswith s p = (take (length p) s = p)"

definition endswith :: "string \<Rightarrow> string \<Rightarrow> bool" where
  "endswith s p = (length p \<le> length s \<and> drop (length s - length p) s = p)"

definition replace_char :: "char \<Rightarrow> char \<Rightarrow> string \<Rightarrow> string" where
  "replace_char a b s = map (\<lambda>c. if c = a then b else c) s"

fun rfind :: "char \<Rightarrow> string \<Rightarrow> int" where
  "rfind c [] = -1"
| "rfind c (x # xs) = (let r = rfind c xs in if 0 \<le> r then r + 1 else if x = c then 0 else -1)"

definition slice_to :: "string \<Rightarrow> int \<Rightarrow> string" where
  "slice_to s k = (if k < 0 then take (length s - nat (- k)) s else take (nat k) s)"

definition slice_from :: "string \<Rightarrow> int \<Rightarrow> string" where
  "slice_from s k = (if k < 0 then drop (length s - nat (- k)) s else drop (nat k) s)"

definition strip :: "string \<Rightarrow> string \<Rightarrow> string" where
  "strip cs s = rev (dropWhile (\<lambda>c. c \<in> set cs) (rev (dropWhile (\<lambda>c. c \<in> set cs) s)))"

fun split :: "'a \<Rightarrow> 'a list \<Rightarrow> 'a list list" where
  "split c [] = [[]]"
| "split c (x # xs) =
     (if x = c then [] # split c xs
      else (case split c xs of [] \<Rightarrow> [[x]] | p # ps \<Rightarrow> (x # p) # ps))"

definition backslash :: char where
  "backslash = CHR 0x5C"

section \<open>Bytes, struct.unpack and the file object\<close>

text \<open>
  Little-endian integers as \<open>struct.unpack\<close> reads them: \<open>l\<close> is a signed and \<open>L\<close> an
  unsigned 32-bit field. \<open>struct.unpack\<close> raises \<open>struct.error\<close> unless the buffer has
  exactly the size of the format.
\<close>

definition u32_le :: "byte list \<Rightarrow> nat" where
  "u32_le bs = foldr (\<lambda>b acc. unat b + 256 * acc) bs 0"

definition i32_le :: "byte list \<Rightarrow> int" where
  "i32_le bs = (let u = int (u32_le bs) in if u < 2147483648 then u else u - 4294967296)"

definition bytes_of :: "string \<Rightarrow> byte list" where
  "bytes_of s = map (\<lambda>c. of_char c) s"

definition decode_ascii :: "byte list \<Rightarrow> error + string" where
  "decode_ascii bs =
     (if list_all (\<lambda>b. unat b < 128) bs then Inr (map (\<lambda>b. char_of (unat b)) bs)
      else Inl UnicodeDecodeError)"

text \<open>\<open>field.split(b'\00')[0].decode('ascii')\<close>: the bytes before the first NUL.\<close>

definition cname :: "byte list \<Rightarrow> error + string" where
  "cname field = decode_ascii (takeWhile (\<lambda>b. b \<noteq> 0) field)"

text \<open>
  The open file \<open>wad\<close>: its content, and a position that \<open>read\<close> and \<open>seek\<close> move.
  \<open>read(n)\<close> at position \<open>pos\<close> returns at most \<open>n\<close> bytes (fewer at the end of the
  file), all the rest for \<open>n = -1\<close>, and raises for \<open>n < -1\<close>; \<open>seek\<close> to a negative
  offset raises. A read of a fixed size \<open>n\<close> is written \<open>take n (drop pos content)\<close>.
\<close>

definition wad_read :: "byte list \<Rightarrow> nat \<Rightarrow> int \<Rightarrow> error + byte list" where
  "wad_read content pos n =
     (if n < -1 then Inl ValueError
      else if n = -1 then Inr (drop pos content)
      else Inr (take (nat n) (drop pos content)))"

definition wad_seek :: "int \<Rightarrow> error + nat" where
  "wad_seek off = (if off < 0 then Inl OSError else Inr (nat off))"

text \<open>
  A directory entry as the code uses it: of the seven fields of \<open>'<3lcch16s'\<close> only the
  offset (field 0), the type byte (field 3) and the name (field 6) are read. BSP entries are
  synthesised with type \<open>b'D'\<close> and an empty name, the pseudo-entry of a loose image with the
  integer 0 for a type (\<open>None\<close> here) and an empty name.
\<close>

record wadentry =
  e_offset :: int
  e_type :: "byte option"
  e_name :: "byte list"

definition unpack_2l :: "byte list \<Rightarrow> error + (int \<times> int)" where
  "unpack_2l bs =
     (if length bs \<noteq> 8 then Inl StructError
      else Inr (i32_le (take 4 bs), i32_le (take 4 (drop 4 bs))))"

definition unpack_l :: "byte list \<Rightarrow> error + int" where
  "unpack_l bs = (if length bs \<noteq> 4 then Inl StructError else Inr (i32_le bs))"

definition unpack_entry :: "byte list \<Rightarrow> error + wadentry" where
  "unpack_entry bs =
     (if length bs \<noteq> 32 then Inl StructError
      else Inr \<lparr>e_offset = i32_le (take 4 bs), e_type = Some (bs ! 12),
                e_name = take 16 (drop 16 bs)\<rparr>)"

text \<open>\<open>struct.unpack('<30l', ...)[4]\<close>: the texture directory offset of a BSP header.\<close>

definition unpack_30l_4 :: "byte list \<Rightarrow> error + int" where
  "unpack_30l_4 bs =
     (if length bs \<noteq> 120 then Inl StructError else Inr (i32_le (take 4 (drop 16 bs))))"

text \<open>\<open>'<16s6L'\<close>: name, width, height and the first of four mip offsets.\<close>

definition unpack_miptex :: "byte list \<Rightarrow> error + (byte list \<times> nat \<times> nat \<times> nat)" where
  "unpack_miptex bs =
     (if length bs \<noteq> 40 then Inl StructError
      else Inr (take 16 bs, u32_le (take 4 (drop 16 bs)), u32_le (take 4 (drop 20 bs)),
                u32_le (take 4 (drop 24 bs))))"

definition unpack_768B :: "byte list \<Rightarrow> error + nat list" where
  "unpack_768B bs = (if length bs \<noteq> 768 then Inl StructError else Inr (map unat bs))"

text \<open>
  Python indexing \<open>xs[i]\<close>: a negative index counts from the end, an index out of range
  raises \<open>IndexError\<close>.
\<close>

definition getitem :: "'a list \<Rightarrow> int \<Rightarrow> error + 'a" where
  "getitem xs i =
     (if 0 \<le> i \<and> i < int (length xs) then Inr (xs ! nat i)
      else if i < 0 \<and> - int (length xs) \<le> i then Inr (xs ! nat (int (length xs) + i))
      else Inl IndexError)"

section \<open>The palette table\<close>

text \<open>
  \<open>quake1palette\<close> is the module's table of 768 bytes (256 RGB triples);
  \<open>pal_float = [rgb/255 for rgb in quake1palette]\<close>. Channel values are Python floats;
  they are rationals here, so the division is exact. The importer only copies and compares
  them with 0 and 1.
\<close>

definition quake1palette :: "nat list" where
  "quake1palette = [
      0, 0, 0, 15, 15, 15, 31, 31, 31, 47, 47, 47, 63, 63, 63, 75, 75, 75, 91, 91, 91, 107, 107, 107,
      123, 123, 123, 139, 139, 139, 155, 155, 155, 171, 171, 171, 187, 187, 187, 203, 203, 203, 219, 219, 219, 235, 235, 235,
      15, 11, 7, 23, 15, 11, 31, 23, 11, 39, 27, 15, 47, 35, 19, 55, 43, 23, 63, 47, 23, 75, 55, 27,
      83, 59, 27, 91, 67, 31, 99, 75, 31, 107, 83, 31, 115, 87, 31, 123, 95, 35, 131, 103, 35, 143, 111, 35,
      11, 11, 15, 19, 19, 27, 27, 27, 39, 39, 39, 51, 47, 47, 63, 55, 55, 75, 63, 63, 87, 71, 71, 103,
      79, 79, 115, 91, 91, 127, 99, 99, 139, 107, 107, 151, 115, 115, 163, 123, 123, 175, 131, 131, 187, 139, 139, 203,
      0, 0, 0, 7, 7, 0, 11, 11, 0, 19, 19, 0, 27, 27, 0, 35, 35, 0, 43, 43, 7, 47, 47, 7,
      55, 55, 7, 63, 63, 7, 71, 71, 7, 75, 75, 11, 83, 83, 11, 91, 91, 11, 99, 99, 11, 107, 107, 15,
      7, 0, 0, 15, 0, 0, 23, 0, 0, 31, 0, 0, 39, 0, 0, 47, 0, 0, 55, 0, 0, 63, 0, 0,
      71, 0, 0, 79, 0, 0, 87, 0, 0, 95, 0, 0, 103, 0, 0, 111, 0, 0, 119, 0, 0, 127, 0, 0,
      19, 19, 0, 27, 27, 0, 35, 35, 0, 47, 43, 0, 55, 47, 0, 67, 55, 0, 75, 59, 7, 87, 67, 7,
      95, 71, 7, 107, 75, 11, 119, 83, 15, 131, 87, 19, 139, 91, 19, 151, 95, 27, 163, 99, 31, 175, 103, 35,
      35, 19, 7, 47, 23, 11, 59, 31, 15, 75, 35, 19, 87, 43, 23, 99, 47, 31, 115, 55, 35, 127, 59, 43,
      143, 67, 51, 159, 79, 51, 175, 99, 47, 191, 119, 47, 207, 143, 43, 223, 171, 39, 239, 203, 31, 255, 243, 27,
      11, 7, 0, 27, 19, 0, 43, 35, 15, 55, 43, 19, 71, 51, 27, 83, 55, 35, 99, 63, 43, 111, 71, 51,
      127, 83, 63, 139, 95, 71, 155, 107, 83, 167, 123, 95, 183, 135, 107, 195, 147, 123, 211, 163, 139, 227, 179, 151,
      171, 139, 163, 159, 127, 151, 147, 115, 135, 139, 103, 123, 127, 91, 111, 119, 83, 99, 107, 75, 87, 95, 63, 75,
      87, 55, 67, 75, 47, 55, 67, 39, 47, 55, 31, 35, 43, 23, 27, 35, 19, 19, 23, 11, 11, 15, 7, 7,
      187, 115, 159, 175, 107, 143, 163, 95, 131, 151, 87, 119, 139, 79, 107, 127, 75, 95, 115, 67, 83, 107, 59, 75,
      95, 51, 63, 83, 43, 55, 71, 35, 43, 59, 31, 35, 47, 23, 27, 35, 19, 19, 23, 11, 11, 15, 7, 7,
      219, 195, 187, 203, 179, 167, 191, 163, 155, 175, 151, 139, 163, 135, 123, 151, 123, 111, 135, 111, 95, 123, 99, 83,
      107, 87, 71, 95, 75, 59, 83, 63, 51, 67, 51, 39, 55, 43, 31, 39, 31, 23, 27, 19, 15, 15, 11, 7,
      111, 131, 123, 103, 123, 111, 95, 115, 103, 87, 107, 95, 79, 99, 87, 71, 91, 79, 63, 83, 71, 55, 75, 63,
      47, 67, 55, 43, 59, 47, 35, 51, 39, 31, 43, 31, 23, 35, 23, 15, 27, 19, 11, 19, 11, 7, 11, 7,
      255, 243, 27, 239, 223, 23, 219, 203, 19, 203, 183, 15, 187, 167, 15, 171, 151, 11, 155, 131, 7, 139, 115, 7,
      123, 99, 7, 107, 83, 0, 91, 71, 0, 75, 55, 0, 59, 43, 0, 43, 31, 0, 27, 15, 0, 11, 7, 0,
      0, 0, 255, 11, 11, 239, 19, 19, 223, 27, 27, 207, 35, 35, 191, 43, 43, 175, 47, 47, 159, 47, 47, 143,
      47, 47, 127, 47, 47, 111, 47, 47, 95, 43, 43, 79, 35, 35, 63, 27, 27, 47, 19, 19, 31, 11, 11, 15,
      43, 0, 0, 59, 0, 0, 75, 7, 0, 95, 7, 0, 111, 15, 0, 127, 23, 7, 147, 31, 7, 163, 39, 11,
      183, 51, 15, 195, 75, 27, 207, 99, 43, 219, 127, 59, 227, 151, 79, 231, 171, 95, 239, 191, 119, 247, 211, 139,
      167, 123, 59, 183, 155, 55, 199, 195, 55, 231, 227, 87, 127, 191, 255, 171, 231, 255, 215, 255, 255, 103, 0, 0,
      139, 0, 0, 179, 0, 0, 215, 0, 0, 255, 0, 0, 255, 243, 147, 255, 247, 199, 255, 255, 255, 159, 91, 83]"

definition pal_float :: "rat list" where
  "pal_float = map (\<lambda>rgb. of_nat rgb / 255) quake1palette"

section \<open>From palette indices to RGBA and emission\<close>

text \<open>
  The body of the two pixel loops of \<open>execute\<close> (the \<open>else\<close> branch "convert from
  indexed to RGBA + emission"), for one \<open>row\<close> and \<open>clm\<close>. \<open>pix_rgba\<close> and \<open>pix_emit\<close>
  are the two growing lists; \<open>if pix_emit\<close> tests that the list is not empty.
  \<open>alpha\<close> is a Python \<open>bool\<close>, stored as 1 or 0.
\<close>

definition classify_pixel ::
  "bool \<Rightarrow> string \<Rightarrow> rat list \<Rightarrow> int \<times> int \<Rightarrow> byte list \<Rightarrow> nat \<Rightarrow> nat \<Rightarrow>
   rat list \<times> rat list \<Rightarrow> error + (rat list \<times> rat list)" where
  "classify_pixel option_luma name palette sz pixels row clm acc =
     (case acc of (pix_rgba, pix_emit) \<Rightarrow>
        bind (getitem pixels (int row * fst sz + int clm)) (\<lambda>px.
        let pixel = unat px;
            color = take 3 (drop (pixel * 3) palette)
        in bind (if pixel \<noteq> 255 then Inr True
                 else bind (getitem name 0) (\<lambda>c. Inr (c \<noteq> CHR ''{''))) (\<lambda>alpha.
        let notfb = (pixel < 224 \<or> startswith name ''sky'' \<or> startswith name ''*'')
        in if notfb \<or> \<not> alpha
           then Inr (pix_rgba @ color @ [of_bool alpha],
                     if pix_emit \<noteq> [] then pix_emit @ [0, 0, 0, 1] else pix_emit)
           else let rgba' = (if option_luma then pix_rgba @ [0, 0, 0, 1]
                             else pix_rgba @ color @ [of_bool alpha]);
                    initsize = (snd sz - int row - 1) * fst sz + int clm;
                    emit' = (if pix_emit = [] then concat (replicate (nat initsize) [0, 0, 0, 1])
                             else pix_emit)
                in Inr (rgba', emit' @ color @ [of_bool alpha]))))"

text \<open>
  \<open>for row in reversed(range(size[1])): for clm in range(size[0]): ...\<close>, from two empty
  lists. A \<open>range\<close> of a negative number is empty.
\<close>

definition indexed_to_rgba ::
  "bool \<Rightarrow> string \<Rightarrow> rat list \<Rightarrow> int \<times> int \<Rightarrow> byte list \<Rightarrow> error + (rat list \<times> rat list)" where
  "indexed_to_rgba option_luma name palette sz pixels =
     foldM (\<lambda>row. foldM (classify_pixel option_luma name palette sz pixels row)
                     [0..<nat (fst sz)])
       (rev [0..<nat (snd sz)]) ([], [])"


section \<open>The container reader\<close>

text \<open>
  \<open>for i in range(numentries): wadentries.append(struct.unpack(fmt, wad.read(fmtsize)))\<close>
  with \<open>fmt = '<3lcch16s'\<close> (32 bytes), from position \<open>pos\<close>.
\<close>

fun read_wad2_entries :: "byte list \<Rightarrow> nat \<Rightarrow> nat \<Rightarrow> error + wadentry list" where
  "read_wad2_entries content 0 pos = Inr []"
| "read_wad2_entries content (Suc n) pos =
     bind (unpack_entry (take 32 (drop pos content))) (\<lambda>e.
     bind (read_wad2_entries content n (pos + 32)) (\<lambda>es. Inr (e # es)))"

text \<open>
  The BSP loop: \<open>offset = struct.unpack('<l', wad.read(4))[0] + diroffset\<close>, then
  \<open>wadentries.append([offset, 0, 0, b'D', 0, 0, b''])\<close>.
\<close>

fun read_bsp_entries :: "byte list \<Rightarrow> int \<Rightarrow> nat \<Rightarrow> nat \<Rightarrow> error + wadentry list" where
  "read_bsp_entries content diroffset 0 pos = Inr []"
| "read_bsp_entries content diroffset (Suc n) pos =
     bind (unpack_l (take 4 (drop pos content))) (\<lambda>off.
     bind (read_bsp_entries content diroffset n (pos + 4)) (\<lambda>es.
     Inr (\<lparr>e_offset = off + diroffset, e_type = Some 68, e_name = []\<rparr> # es)))"

text \<open>
  "determine format": the directory of a WAD2 or BSP file, or \<open>None\<close> when the first four
  bytes are neither signature (the file is then loaded as a loose image).
  \<open>struct.pack('<L', 29)\<close> is \<open>[29, 0, 0, 0]\<close>.
\<close>

definition read_wadentries :: "byte list \<Rightarrow> error + wadentry list option" where
  "read_wadentries content =
     (let sig = take 4 content
      in if sig = bytes_of ''WAD2'' then
           bind (unpack_2l (take 8 (drop 4 content))) (\<lambda>(numentries, diroffset).
           bind (wad_seek diroffset) (\<lambda>pos.
           bind (read_wad2_entries content (nat numentries) pos) (\<lambda>es. Inr (Some es))))
         else if sig = bytes_of ''BSP2'' \<or> sig = [29, 0, 0, 0] then
           bind (unpack_30l_4 (take 120 (drop 4 content))) (\<lambda>diroffset.
           bind (wad_seek diroffset) (\<lambda>pos.
           bind (unpack_l (take 4 (drop pos content))) (\<lambda>numentries.
           bind (read_bsp_entries content diroffset (nat numentries) (pos + 4)) (\<lambda>es.
           Inr (Some es)))))
         else Inr None)"

section \<open>The lump decoder\<close>

text \<open>
  The files of the batch, and what the operator is run with: its options, the add-on
  preferences and the three things it asks of its surroundings (\<open>bpy.path.relpath\<close>, which
  may raise: \<open>None\<close>; the colour depth of the image \<open>bpy.data.images.load\<close> returns for a
  path; \<open>os.path.isfile\<close>). \<open>option_turb\<close>, \<open>option_scroll\<close> and \<open>option_lerp\<close> only
  shape shader nodes and are left out.
\<close>

record wfile =
  fname :: string
  content :: "byte list"

record env =
  directory :: string
  option_assets :: bool
  option_cont :: bool
  option_rel :: bool
  option_luma :: bool
  option_seq :: bool
  prefs_emit_suffix :: string
  relpath :: "string \<Rightarrow> string option"
  image_depth :: "string \<Rightarrow> nat"
  isfile :: "string \<Rightarrow> bool"

text \<open>\<open>emit_suffix = prefs.emit_suffix if prefs.emit_suffix else '_luma'\<close>\<close>

definition emit_suffix :: "env \<Rightarrow> string" where
  "emit_suffix env = (if prefs_emit_suffix env \<noteq> [] then prefs_emit_suffix env else ''_luma'')"

text \<open>
  What the \<open>if\<close>/\<open>elif\<close> chain at the head of the lump loop leaves in \<open>name\<close>, \<open>size\<close>,
  \<open>pixels\<close> and \<open>palette\<close>: an indexed image, a loose image (only \<open>name\<close> is set), or
  an unrecognised lump (the \<open>else\<close> branch, which reports and continues).
\<close>

datatype lump =
    Indexed string "int \<times> int" "byte list" "rat list"
  | Loose string
  | Unrecognized string

text \<open>
  The name of a loose image: the file name, or with \<open>option_rel\<close> the relative path
  (stripped of slashes at both ends, backslashes turned into slashes; the file name again,
  with a warning, when \<open>relpath\<close> raises); then cut before its last dot (\<open>rfind\<close> gives -1
  when there is none, and \<open>name[:-1]\<close> drops the last character) with \<open>#\<close> replaced by \<open>*\<close>.
\<close>

definition loose_name :: "env \<Rightarrow> string \<Rightarrow> string \<times> string list" where
  "loose_name env file_name =
     (let fullpath = directory env @ file_name;
          (name, warn) =
            (if \<not> option_rel env then (file_name, [])
             else (case relpath env fullpath of
                     Some p \<Rightarrow> (replace_char backslash CHR ''/'' (strip [CHR ''/'', backslash] p), [])
                   | None \<Rightarrow> (file_name, [''Could not build relative path for '' @ fullpath])))
      in (replace_char CHR ''#'' CHR ''*'' (slice_to name (rfind CHR ''.'' name)), warn))"

text \<open>
  Lines 148 to 190 of \<open>execute\<close>, for one \<open>wadentry\<close>. \<open>palette = pal_float\<close> is assigned
  anew for every entry; only the palette branch (\<open>type == b'@'\<close>, 64) replaces it, for that
  entry. The type bytes are \<open>b'D'\<close> = 68 (miptexture) and \<open>b'B'\<close> = 66 (status bar).
\<close>

definition decode_lump :: "env \<Rightarrow> wfile \<Rightarrow> bool \<Rightarrow> wadentry \<Rightarrow> error + (lump \<times> string list)" where
  "decode_lump env file loose_texture wadentry =
     bind (wad_seek (e_offset wadentry)) (\<lambda>pos.
     bind (cname (e_name wadentry)) (\<lambda>name.
     let palette = pal_float
     in if loose_texture then
          (case loose_name env (fname file) of (name, warn) \<Rightarrow> Inr (Loose name, warn))
        else if name = ''CONCHARS'' then
          bind (wad_read (content file) pos (128 * 128)) (\<lambda>pixels.
          Inr (Indexed name (128, 128) pixels palette, []))
        else if name = ''CONBACK'' then
          bind (wad_read (content file) pos (320 * 200)) (\<lambda>pixels.
          Inr (Indexed name (320, 200) pixels palette, []))
        else if e_type wadentry = Some 68 then
          bind (unpack_miptex (take 40 (drop pos (content file)))) (\<lambda>(mname, width, height, mip0).
          bind (cname mname) (\<lambda>name.
          bind (wad_seek (e_offset wadentry + int mip0)) (\<lambda>pos'.
          bind (wad_read (content file) pos' (int width * int height)) (\<lambda>pixels.
          Inr (Indexed name (int width, int height) pixels palette, [])))))
        else if e_type wadentry = Some 66 then
          bind (unpack_2l (take 8 (drop pos (content file)))) (\<lambda>sz.
          bind (wad_read (content file) (pos + 8) (fst sz * snd sz)) (\<lambda>pixels.
          Inr (Indexed name sz pixels palette, [])))
        else if e_type wadentry = Some 64 then
          bind (unpack_768B (take 768 (drop pos (content file)))) (\<lambda>newpal.
          let palette = map (\<lambda>rgb. of_nat rgb / 255) newpal
          in Inr (Indexed name (16, 16) (map of_nat [0..<256]) palette, []))
        else Inr (Unrecognized name, [''Unrecognized lump '' @ name])))"


section \<open>Blender's data and the import session\<close>

text \<open>
  What \<open>execute\<close> changes: \<open>bpy.data.materials\<close>, \<open>bpy.data.images\<close>, the container
  objects of \<open>bpy.data.objects\<close> with their material slots, the dictionary \<open>anim_seqs\<close>
  and the warnings it reports. An image is generated from pixels (\<open>images.new\<close>) or loaded
  from a path (\<open>images.load\<close>, which names it after the file). Of a material only its name,
  the image behind its base colour, its emission image and its asset tags are kept: the
  shader graph is not modelled. \<open>asset_data\<close> is \<open>None\<close> for a material that was never
  marked as an asset. Data blocks are assumed to keep the names they are given (Blender
  renames on a clash and cuts names at 63 bytes). \<open>anim_seqs\<close> holds image names where the
  code holds the images: the code only reads their \<open>name\<close>, which no longer changes.
\<close>

datatype pixel_data = Pixels int int "rat list" | FromFile string

record image =
  img_name :: string
  img_data :: pixel_data

datatype base_node = ImageNode string | MixNode "string list"

record material =
  mat_name :: string
  mat_base :: base_node
  mat_emit :: "string option"
  mat_tags :: "string list option"

record session =
  materials :: "material list"
  images :: "image list"
  objects :: "(string \<times> string list) list"
  anim_seqs :: "(string \<times> string list) list"
  warnings :: "string list"

text \<open>\<open>d[k] = v\<close> on a dictionary that keeps insertion order.\<close>

fun dict_set :: "('k \<times> 'v) list \<Rightarrow> 'k \<Rightarrow> 'v \<Rightarrow> ('k \<times> 'v) list" where
  "dict_set [] k v = [(k, v)]"
| "dict_set ((k', v') # d) k v = (if k' = k then (k, v) # d else (k', v') # dict_set d k v)"

definition has_material :: "session \<Rightarrow> string \<Rightarrow> bool" where
  "has_material s name = (name \<in> mat_name ` set (materials s))"

text \<open>\<open>bpy.data.materials[name].asset_data.tags.new(tag)\<close>\<close>

fun add_tag :: "string \<Rightarrow> string \<Rightarrow> material list \<Rightarrow> error + material list" where
  "add_tag name tag [] = Inl KeyError"
| "add_tag name tag (m # ms) =
     (if mat_name m = name then
        (case mat_tags m of
           None \<Rightarrow> Inl AttributeError
         | Some ts \<Rightarrow> Inr (m\<lparr>mat_tags := Some (ts @ [tag])\<rparr> # ms))
      else bind (add_tag name tag ms) (\<lambda>ms'. Inr (m # ms')))"

text \<open>\<open>ob.data.materials.append(mat)\<close> for the container object \<open>ob\<close> named \<open>cont_name\<close>.\<close>

definition slot_append :: "string \<Rightarrow> string \<Rightarrow> session \<Rightarrow> session" where
  "slot_append cont_name name s =
     s\<lparr>objects := map (\<lambda>(k, slots). if k = cont_name then (k, slots @ [name]) else (k, slots))
                      (objects s)\<rparr>"

text \<open>"add containers": the object of the file's container name, made when it is missing.\<close>

definition add_container :: "env \<Rightarrow> string \<Rightarrow> session \<Rightarrow> session" where
  "add_container env cont_name s =
     (if option_cont env \<and> cont_name \<notin> fst ` set (objects s)
      then s\<lparr>objects := objects s @ [(cont_name, [])]\<rparr> else s)"

text \<open>The image \<open>img24 = bpy.data.images.load(self.directory + file.name)\<close>.\<close>

definition img24 :: "env \<Rightarrow> wfile \<Rightarrow> image" where
  "img24 env file = \<lparr>img_name = fname file, img_data = FromFile (directory env @ fname file)\<rparr>"

definition remove_image :: "image \<Rightarrow> session \<Rightarrow> session" where
  "remove_image img s = s\<lparr>images := remove1 img (images s)\<rparr>"

fun rename_image :: "image \<Rightarrow> string \<Rightarrow> image list \<Rightarrow> image list" where
  "rename_image img name [] = []"
| "rename_image img name (i # imgs) =
     (if i = img then i\<lparr>img_name := name\<rparr> # imgs else i # rename_image img name imgs)"

section \<open>Duplicates, sequence frames and glow images\<close>

text \<open>
  \<open>name[0] == '+' and name[1] not in '0a'\<close>: \<open>and\<close> reads \<open>name[1]\<close> only after
  \<open>name[0] == '+'\<close> held, and each index raises when the name is too short.
\<close>

definition is_frame :: "string \<Rightarrow> error + bool" where
  "is_frame name =
     bind (getitem name 0) (\<lambda>c0.
     if c0 \<noteq> CHR ''+'' then Inr False
     else bind (getitem name 1) (\<lambda>c1. Inr (c1 \<notin> set ''0a'')))"

text \<open>
  \<open>seq_name = '+0' if name[1] in '0123456789' else '+a'\<close>, then
  \<open>seq_name += name[2:]\<close>.
\<close>

definition seq_name :: "string \<Rightarrow> error + string" where
  "seq_name name =
     bind (getitem name 1) (\<lambda>c1.
     Inr ((if c1 \<in> set ''0123456789'' then ''+0'' else ''+a'') @ drop 2 name))"

text \<open>
  "skip duplicates and other unneeded textures" (lines 195 to 217), on the lowercased
  \<open>name\<close>: either the loop continues with the next lump (\<open>Next\<close>, with the session as
  the branch left it) or the lump is built, as a frame of the sequence \<open>seq_name\<close> or as a
  material (\<open>Build\<close>).
\<close>

datatype flow = Next session | Build "string option"

definition skip_glow :: "env \<Rightarrow> wfile \<Rightarrow> bool \<Rightarrow> string \<Rightarrow> string option \<Rightarrow> session \<Rightarrow> flow" where
  "skip_glow env file loose_texture name sq s =
     (if loose_texture \<and> endswith name (emit_suffix env)
      then Next (remove_image (img24 env file) s) else Build sq)"

definition skip_unneeded ::
  "env \<Rightarrow> wfile \<Rightarrow> bool \<Rightarrow> string \<Rightarrow> string \<Rightarrow> session \<Rightarrow> error + flow" where
  "skip_unneeded env file loose_texture cont_name name s =
     (if has_material s name then
        (let s1 = (if option_cont env then slot_append cont_name name s else s)
         in bind (add_tag name cont_name (materials s1)) (\<lambda>ms. Inr (Next (s1\<lparr>materials := ms\<rparr>))))
      else
        bind (is_frame name) (\<lambda>frame.
        if frame then
          if \<not> option_seq env then Inr (Next s)
          else bind (seq_name name) (\<lambda>sq.
               if (case map_of (anim_seqs s) sq of None \<Rightarrow> False | Some frames \<Rightarrow> name \<in> set frames)
               then Inr (Next (if loose_texture then remove_image (img24 env file) s else s))
               else Inr (skip_glow env file loose_texture name (Some sq) s))
        else Inr (skip_glow env file loose_texture name None s)))"

section \<open>Images, frames and materials\<close>

text \<open>
  Lines 219 to 264: the images of the lump, and whether \<open>pix_emit\<close> is true afterwards.
  A loose image is renamed and its glow sibling (the file name with the suffix before the
  extension) is loaded when it exists and has a depth.
\<close>

definition luma_path :: "env \<Rightarrow> wfile \<Rightarrow> string" where
  "luma_path env file =
     directory env @ slice_to (fname file) (rfind CHR ''.'' (fname file)) @ emit_suffix env
       @ slice_from (fname file) (rfind CHR ''.'' (fname file))"

definition build_images ::
  "env \<Rightarrow> wfile \<Rightarrow> lump \<Rightarrow> string \<Rightarrow> session \<Rightarrow> error + (session \<times> bool)" where
  "build_images env file l name s =
     (let ename = name @ emit_suffix env
      in case l of
           Loose _ \<Rightarrow>
             (let s1 = s\<lparr>images := rename_image (img24 env file) name (images s)\<rparr>
              in if isfile env (luma_path env file) \<and> image_depth env (luma_path env file) \<noteq> 0
                 then Inr (s1\<lparr>images := images s1 @
                             [\<lparr>img_name = ename, img_data = FromFile (luma_path env file)\<rparr>]\<rparr>, True)
                 else Inr (s1, False))
         | Indexed _ sz pixels palette \<Rightarrow>
             bind (indexed_to_rgba (option_luma env) name palette sz pixels) (\<lambda>(pix_rgba, pix_emit).
             let s1 = s\<lparr>images := images s @
                          [\<lparr>img_name = name, img_data = Pixels (fst sz) (snd sz) pix_rgba\<rparr>]\<rparr>
             in if pix_emit \<noteq> []
                then Inr (s1\<lparr>images := images s1 @
                            [\<lparr>img_name = ename, img_data = Pixels (fst sz) (snd sz) pix_emit\<rparr>]\<rparr>, True)
                else Inr (s1, False))
         | Unrecognized _ \<Rightarrow> Inr (s, False))"

text \<open>
  "stash sequence frames" (lines 267 to 276). When the sequence exists the glow image is
  appended to \<open>anim_seqs[seq_name + emit_suffix]\<close>, which raises \<open>KeyError\<close> when no earlier
  frame of the sequence had a glow image.
\<close>

definition stash_frame :: "env \<Rightarrow> string \<Rightarrow> string \<Rightarrow> bool \<Rightarrow> session \<Rightarrow> error + session" where
  "stash_frame env sq name has_emit s =
     (let ename = name @ emit_suffix env
      in case map_of (anim_seqs s) sq of
           Some frames \<Rightarrow>
             (let d = dict_set (anim_seqs s) sq (frames @ [name])
              in if has_emit then
                   (case map_of d (sq @ emit_suffix env) of
                      None \<Rightarrow> Inl KeyError
                    | Some glows \<Rightarrow> Inr (s\<lparr>anim_seqs := dict_set d (sq @ emit_suffix env) (glows @ [ename])\<rparr>))
                 else Inr (s\<lparr>anim_seqs := d\<rparr>))
         | None \<Rightarrow>
             (let d = dict_set (anim_seqs s) sq [name]
              in Inr (s\<lparr>anim_seqs := (if has_emit then dict_set d (sq @ emit_suffix env) [ename] else d)\<rparr>)))"

text \<open>
  "create the material" and "mark as asset" (lines 279 to 367): \<open>materials.new(name)\<close>, the
  slot of the container, the image nodes, and with \<open>option_assets\<close> the asset mark and the
  first tag (the add-on needs Blender 4.0, so \<open>bpy.app.version > (3,0,0)\<close> holds).
\<close>

definition new_material :: "env \<Rightarrow> string \<Rightarrow> string \<Rightarrow> bool \<Rightarrow> session \<Rightarrow> session" where
  "new_material env cont_name name has_emit s =
     (let mat = \<lparr>mat_name = name, mat_base = ImageNode name,
                 mat_emit = (if has_emit then Some (name @ emit_suffix env) else None),
                 mat_tags = (if option_assets env then Some [cont_name] else None)\<rparr>;
          s1 = s\<lparr>materials := materials s @ [mat]\<rparr>
      in if option_cont env then slot_append cont_name name s1 else s1)"

definition lump_name :: "lump \<Rightarrow> string" where
  "lump_name l = (case l of Indexed n _ _ _ \<Rightarrow> n | Loose n \<Rightarrow> n | Unrecognized n \<Rightarrow> n)"

text \<open>
  The body of \<open>for wadentry in wadentries\<close>: the lump is decoded (lines 148 to 190), then
  resolved (lines 193 to 367). An unrecognised lump is reported and left.
\<close>

definition resolve_lump ::
  "env \<Rightarrow> wfile \<Rightarrow> bool \<Rightarrow> string \<Rightarrow> lump \<Rightarrow> session \<Rightarrow> error + session" where
  "resolve_lump env file loose_texture cont_name l s =
     (case l of
        Unrecognized _ \<Rightarrow> Inr s
      | _ \<Rightarrow>
        (let name = lower (lump_name l)
         in bind (skip_unneeded env file loose_texture cont_name name s) (\<lambda>fl.
            case fl of
              Next s1 \<Rightarrow> Inr s1
            | Build sq \<Rightarrow>
                bind (build_images env file l name s) (\<lambda>(s1, has_emit).
                case sq of
                  Some q \<Rightarrow> stash_frame env q name has_emit s1
                | None \<Rightarrow> Inr (new_material env cont_name name has_emit s1)))))"

definition import_lump ::
  "env \<Rightarrow> wfile \<Rightarrow> bool \<Rightarrow> string \<Rightarrow> wadentry \<Rightarrow> session \<Rightarrow> error + session" where
  "import_lump env file loose_texture cont_name wadentry s =
     bind (decode_lump env file loose_texture wadentry) (\<lambda>(l, warn).
     resolve_lump env file loose_texture cont_name l (s\<lparr>warnings := warnings s @ warn\<rparr>))"

text \<open>
  The body of \<open>for file in self.files\<close>. A file that is neither WAD2 nor BSP is loaded as
  an image; with depth 0 it is reported, removed again and skipped. The container name of
  a loose image is \<open>self.directory.split('\\')[-2]\<close>, of an archive the file name.
\<close>

definition import_file :: "env \<Rightarrow> wfile \<Rightarrow> session \<Rightarrow> error + session" where
  "import_file env file s =
     bind (read_wadentries (content file)) (\<lambda>dir.
     case dir of
       Some wadentries \<Rightarrow>
         foldM (import_lump env file False (fname file)) wadentries
           (add_container env (fname file) s)
     | None \<Rightarrow>
         if image_depth env (directory env @ fname file) = 0
         then Inr (s\<lparr>warnings := warnings s @ [''Skipped '' @ fname file]\<rparr>)
         else bind (getitem (split backslash (directory env)) (- 2)) (\<lambda>cont_name.
              foldM (import_lump env file True cont_name)
                [\<lparr>e_offset = 0, e_type = None, e_name = []\<rparr>]
                (add_container env cont_name (s\<lparr>images := images s @ [img24 env file]\<rparr>))))"

text \<open>
  \<open>make_noodles_post\<close>, as far as the order of the frames goes: a material whose name is a
  key of \<open>anim_seqs\<close> and whose base colour still comes from an image node gets the chain of
  mix nodes that shows its own image first and then the stashed frames
  \<open>sorted(anim_seqs[seq_name], key=lambda frame: frame.name)\<close>, one after the other.
\<close>

definition make_noodles_post :: "session \<Rightarrow> session" where
  "make_noodles_post s =
     s\<lparr>materials := map (\<lambda>mat.
          case map_of (anim_seqs s) (mat_name mat) of
            None \<Rightarrow> mat
          | Some frames \<Rightarrow>
              (case mat_base mat of
                 MixNode _ \<Rightarrow> mat
               | ImageNode frm0 \<Rightarrow> mat\<lparr>mat_base := MixNode (frm0 # sort frames)\<rparr>))
        (materials s)\<rparr>"

text \<open>\<open>execute\<close>: \<open>anim_seqs = dict()\<close>, the files in order, then the sequences.\<close>

definition execute :: "env \<Rightarrow> wfile list \<Rightarrow> session \<Rightarrow> error + session" where
  "execute env files s =
     bind (foldM (import_file env) files (s\<lparr>anim_seqs := []\<rparr>)) (\<lambda>s'.
     Inr (if option_seq env then make_noodles_post s' else s'))"

section \<open>The pixel loops as functions of the index buffer\<close>

text \<open>
  What the loop body appends for one palette index \<open>v\<close>, written as functions, and the
  indices in the order the loops visit them. The lemmas below prove that
  \<open>indexed_to_rgba\<close> computes exactly these.
\<close>

definition color_of :: "rat list \<Rightarrow> nat \<Rightarrow> rat list" where
  "color_of palette v = take 3 (drop (v * 3) palette)"

definition masked :: "string \<Rightarrow> nat \<Rightarrow> bool" where
  "masked name v = (v = 255 \<and> startswith name ''{'')"

definition glows :: "string \<Rightarrow> nat \<Rightarrow> bool" where
  "glows name v =
     (224 \<le> v \<and> \<not> startswith name ''sky'' \<and> \<not> startswith name ''*'' \<and> \<not> masked name v)"

definition color_quad :: "bool \<Rightarrow> string \<Rightarrow> rat list \<Rightarrow> nat \<Rightarrow> rat list" where
  "color_quad luma name palette v =
     (if glows name v \<and> luma then [0, 0, 0, 1]
      else color_of palette v @ [if masked name v then 0 else 1])"

definition emit_quad :: "string \<Rightarrow> rat list \<Rightarrow> nat \<Rightarrow> rat list" where
  "emit_quad name palette v =
     (if glows name v then color_of palette v @ [1] else [0, 0, 0, 1])"

definition emission :: "string \<Rightarrow> rat list \<Rightarrow> nat list \<Rightarrow> rat list" where
  "emission name palette vs =
     (if list_ex (glows name) vs then concat (map (emit_quad name palette) vs) else [])"

definition row_values :: "byte list \<Rightarrow> nat \<Rightarrow> nat \<Rightarrow> nat \<Rightarrow> nat list" where
  "row_values pixels W row n = map (\<lambda>clm. unat (pixels ! (row * W + clm))) [0..<n]"

definition visited_rows :: "byte list \<Rightarrow> nat \<Rightarrow> nat \<Rightarrow> nat \<Rightarrow> nat list" where
  "visited_rows pixels W H m = concat (map (\<lambda>row. row_values pixels W row W) (rev [H - m..<H]))"

definition visited :: "int \<times> int \<Rightarrow> byte list \<Rightarrow> nat list" where
  "visited sz pixels = visited_rows pixels (nat (fst sz)) (nat (snd sz)) (nat (snd sz))"

section \<open>Example archives\<close>

text \<open>
  Archives to run the importer on. \<open>wad2\<close> lays out a WAD2 file: the signature, the
  number of entries and the directory offset, the lumps one after the other, then the
  directory with one entry of 32 bytes per lump (offset, two sizes, the type byte, three
  bytes of compression and padding, the name in 16 bytes). \<open>miptex\<close> is a miptexture lump:
  the header of 40 bytes (name, width, height, four mip offsets of which the first is 40)
  followed by the pixels.
\<close>

definition le32 :: "nat \<Rightarrow> byte list" where
  "le32 n = [of_nat (n mod 256), of_nat (n div 256 mod 256), of_nat (n div 65536 mod 256),
             of_nat (n div 16777216 mod 256)]"

definition field16 :: "string \<Rightarrow> byte list" where
  "field16 s = take 16 (bytes_of s @ [0, 0, 0, 0, 0, 0, 0, 0, 0, 0, 0, 0, 0, 0, 0, 0])"

definition miptex :: "string \<Rightarrow> nat \<Rightarrow> nat \<Rightarrow> byte list \<Rightarrow> byte list" where
  "miptex name w h pixels =
     field16 name @ le32 w @ le32 h @ le32 40 @ le32 0 @ le32 0 @ le32 0 @ pixels"

fun wad2_directory :: "nat \<Rightarrow> (byte \<times> string \<times> byte list) list \<Rightarrow> byte list" where
  "wad2_directory off [] = []"
| "wad2_directory off ((t, n, d) # ls) =
     le32 off @ le32 (length d) @ le32 (length d) @ [t, 0, 0, 0] @ field16 n
       @ wad2_directory (off + length d) ls"

definition wad2 :: "(byte \<times> string \<times> byte list) list \<Rightarrow> byte list" where
  "wad2 lumps =
     (let body = concat (map (\<lambda>(t, n, d). d) lumps)
      in bytes_of ''WAD2'' @ le32 (length lumps) @ le32 (12 + length body) @ body
           @ wad2_directory 12 lumps)"

text \<open>
  The operator's defaults, in a directory \<open>C:\tex\\<close> where every loose file loads as an
  image of depth 24 and has no glow sibling; and Blender with nothing in it.
\<close>

definition env0 :: env where
  "env0 = \<lparr>directory = ''C:'' @ [backslash] @ ''tex'' @ [backslash],
           option_assets = True, option_cont = True, option_rel = False,
           option_luma = False, option_seq = True, prefs_emit_suffix = ''_luma'',
           relpath = (\<lambda>_. None), image_depth = (\<lambda>_. 24), isfile = (\<lambda>_. False)\<rparr>"

definition empty_session :: session where
  "empty_session = \<lparr>materials = [], images = [], objects = [], anim_seqs = [], warnings = []\<rparr>"




text \<open>
  A palette lump whose 256 colours are all white (768 bytes of 255), followed by a
  miptexture \<open>TEX\<close> of one pixel of index 0, which is black in the default palette.
\<close>

definition pal_wad :: "byte list" where
  "pal_wad = wad2 [(64, ''PAL'', replicate 768 255), (68, ''TEX'', miptex ''TEX'' 1 1 [0])]"

definition pal_file :: wfile where
  "pal_file = \<lparr>fname = ''p.wad'', content = pal_wad\<rparr>"






text \<open>A miptexture whose name is the single character \<open>+\<close>.\<close>

definition plus_file :: wfile where
  "plus_file = \<lparr>fname = ''plus.wad'', content = wad2 [(68, ''+'', miptex ''+'' 1 1 [0])]\<rparr>"

text \<open>A loose image: a file that starts with the PNG signature.\<close>

definition glow_frame_png :: wfile where
  "glow_frame_png = \<lparr>fname = ''+1fire_luma.png'', content = [137, 80, 78, 71]\<rparr>"

text \<open>A lump is recognised when the decoder did not take its last branch.\<close>

definition recognized :: "lump \<Rightarrow> bool" where
  "recognized l = (case l of Unrecognized _ \<Rightarrow> False | _ \<Rightarrow> True)"

section \<open>The registry and the sequences, read from a session\<close>








section \<open>Lemmas on the error monad\<close>

lemma bind_Inr_iff: "bind m f = Inr y \<longleftrightarrow> (\<exists>x. m = Inr x \<and> f x = Inr y)"
  by (cases m) (simp_all add: bind_def)

lemma foldM_append: "foldM f (xs @ ys) s = bind (foldM f xs s) (foldM f ys)"
  by (induction xs arbitrary: s) (simp_all add: bind_def split: sum.splits)

lemma foldM_snoc_Inr:
  "foldM f (xs @ [x]) s = Inr s' \<longleftrightarrow> (\<exists>s1. foldM f xs s = Inr s1 \<and> f x s1 = Inr s')"
  by (simp add: foldM_append bind_Inr_iff)

section \<open>The pixel loops compute the pixel functions\<close>

lemma emit_quad_nonempty: "emit_quad name palette v \<noteq> []"
  by (simp add: emit_quad_def)

lemma concat_emit_quad_empty: "concat (map (emit_quad name palette) vs) = [] \<longleftrightarrow> vs = []"
  by (cases vs) (simp_all add: emit_quad_nonempty)

lemma emission_empty_iff: "emission name palette vs = [] \<longleftrightarrow> \<not> list_ex (glows name) vs"
  by (cases vs) (simp_all add: emission_def emit_quad_nonempty)

lemma dark_emit_quads:
  "\<not> list_ex (glows name) vs \<Longrightarrow>
   concat (map (emit_quad name palette) vs) = concat (replicate (length vs) [0, 0, 0, 1])"
  by (induction vs) (simp_all add: emit_quad_def)

lemma emission_snoc:
  "emission name palette (vs @ [v]) =
     (if glows name v
      then (if emission name palette vs = [] then concat (replicate (length vs) [0, 0, 0, 1])
            else emission name palette vs) @ color_of palette v @ [1]
      else if emission name palette vs \<noteq> [] then emission name palette vs @ [0, 0, 0, 1]
      else [])"
proof (cases "list_ex (glows name) vs")
  case True
  then have ne: "emission name palette vs \<noteq> []"
    by (simp add: emission_empty_iff)
  have e: "emission name palette vs = concat (map (emit_quad name palette) vs)"
    using True by (simp add: emission_def)
  have "emission name palette (vs @ [v]) = emission name palette vs @ emit_quad name palette v"
    using True by (simp add: emission_def)
  then show ?thesis
    using ne by (simp add: emit_quad_def)
next
  case False
  then have em: "emission name palette vs = []"
    by (simp add: emission_empty_iff)
  show ?thesis
  proof (cases "glows name v")
    case True
    then have "emission name palette (vs @ [v]) =
        concat (map (emit_quad name palette) vs) @ emit_quad name palette v"
      by (simp add: emission_def)
    then show ?thesis
      using True em dark_emit_quads [OF False, of palette] by (simp add: emit_quad_def)
  next
    case g: False
    then show ?thesis
      using False em by (simp add: emission_def)
  qed
qed

lemma getitem_name0:
  "getitem name 0 = Inr c \<Longrightarrow> (c \<noteq> CHR ''{'') = (\<not> startswith name ''{'')"
  by (cases name) (auto simp: getitem_def startswith_def)

lemma read_alpha:
  "(if v \<noteq> 255 then Inr True else bind (getitem name 0) (\<lambda>c. Inr (c \<noteq> CHR ''{''))) = Inr alpha
   \<Longrightarrow> alpha = (\<not> masked name v)"
  by (auto simp: masked_def bind_Inr_iff dest: getitem_name0 split: if_splits)

lemma classify_pixel_step:
  assumes "classify_pixel luma name palette (w, h) pixels row clm
             (R, emission name palette vs) = Inr (R', E')"
    and "nat ((h - int row - 1) * w + int clm) = length vs"
  shows "\<exists>px. getitem pixels (int row * w + int clm) = Inr px \<and>
           R' = R @ color_quad luma name palette (unat px) \<and>
           E' = emission name palette (vs @ [unat px])"
proof -
  from assms(1) obtain px where px: "getitem pixels (int row * w + int clm) = Inr px"
    unfolding classify_pixel_def by (auto simp: bind_Inr_iff)
  from assms(1) px obtain alpha where
    al: "(if unat px \<noteq> 255 then Inr True
          else bind (getitem name 0) (\<lambda>c. Inr (c \<noteq> CHR ''{''))) = Inr alpha"
    unfolding classify_pixel_def by (auto simp: bind_Inr_iff Let_def)
  have alpha: "alpha = (\<not> masked name (unat px))"
    using al by (rule read_alpha)
  have gl: "glows name (unat px) =
      (\<not> (unat px < 224 \<or> startswith name ''sky'' \<or> startswith name ''*'') \<and> alpha)"
    by (auto simp: glows_def alpha)
  show ?thesis
  proof (cases "glows name (unat px)")
    case True
    then show ?thesis
      using assms px al gl
      unfolding classify_pixel_def
      by (simp add: bind_def Let_def emission_snoc color_quad_def color_of_def alpha
          split: if_splits)
  next
    case False
    then show ?thesis
      using assms px al gl
      unfolding classify_pixel_def
      by (auto simp add: bind_def Let_def emission_snoc color_quad_def color_of_def alpha
          split: if_splits)
  qed
qed

lemma getitem_int: "getitem xs (int k) = Inr x \<longleftrightarrow> k < length xs \<and> x = xs ! k"
  by (auto simp: getitem_def Let_def)

lemma getitem_nat:
  assumes "getitem xs (int a * w + int b) = Inr x" and "0 \<le> w"
  shows "a * nat w + b < length xs \<and> x = xs ! (a * nat w + b)"
proof -
  have "int a * w + int b = int (a * nat w + b)"
    using assms(2) by simp
  with assms(1) have "getitem xs (int (a * nat w + b)) = Inr x"
    by (simp only:)
  then show ?thesis
    by (simp only: getitem_int)
qed

lemma row_values_Suc: "row_values pixels W row (Suc n) = row_values pixels W row n @ [unat (pixels ! (row * W + n))]"
  by (simp add: row_values_def)

lemma length_row_values: "length (row_values pixels W row n) = n"
  by (simp add: row_values_def)

lemma column_loop:
  assumes "foldM (classify_pixel luma name palette (w, h) pixels row) [0..<n]
             (R, emission name palette vs) = Inr (R', E')"
    and "n \<le> nat w" and "int row < h"
    and "length vs = nat (h - int row - 1) * nat w"
  shows "R' = R @ concat (map (color_quad luma name palette) (row_values pixels (nat w) row n)) \<and>
         E' = emission name palette (vs @ row_values pixels (nat w) row n) \<and>
         (\<forall>clm<n. row * nat w + clm < length pixels)"
  using assms
proof (induction n arbitrary: R' E')
  case 0
  then show ?case by (simp add: row_values_def)
next
  case (Suc n)
  from Suc.prems(1) obtain R1 E1 where
    pre: "foldM (classify_pixel luma name palette (w, h) pixels row) [0..<n]
            (R, emission name palette vs) = Inr (R1, E1)" and
    last: "classify_pixel luma name palette (w, h) pixels row n (R1, E1) = Inr (R', E')"
    by (auto simp: foldM_snoc_Inr)
  have w: "0 < w" using Suc.prems(2) by simp
  from Suc.IH [OF pre _ Suc.prems(3,4)] Suc.prems(2)
  have R1: "R1 = R @ concat (map (color_quad luma name palette) (row_values pixels (nat w) row n))"
    and E1: "E1 = emission name palette (vs @ row_values pixels (nat w) row n)"
    and rng: "\<forall>clm<n. row * nat w + clm < length pixels"
    by simp_all
  have len: "nat ((h - int row - 1) * w + int n) = length (vs @ row_values pixels (nat w) row n)"
    using w Suc.prems(3,4) by (simp add: length_row_values nat_add_distrib nat_mult_distrib)
  from classify_pixel_step [OF last [unfolded E1] len]
  obtain px where px: "getitem pixels (int row * w + int n) = Inr px"
    and R': "R' = R1 @ color_quad luma name palette (unat px)"
    and E': "E' = emission name palette ((vs @ row_values pixels (nat w) row n) @ [unat px])"
    by blast
  from getitem_nat [OF px] w have inr: "row * nat w + n < length pixels"
    and pxv: "px = pixels ! (row * nat w + n)" by simp_all
  show ?case
    using R' E' R1 inr pxv rng by (auto simp: row_values_Suc less_Suc_eq)
qed

lemma length_visited_rows: "length (visited_rows pixels W H m) = m * W" if "m \<le> H"
  using that
proof (induction m)
  case 0
  then show ?case by (simp add: visited_rows_def)
next
  case (Suc m)
  then have "[H - Suc m..<H] = (H - Suc m) # [H - m..<H]"
    by (simp add: upt_conv_Cons Suc_diff_Suc)
  then show ?case
    using Suc by (simp add: visited_rows_def length_row_values)
qed

lemma visited_rows_Suc:
  "Suc m \<le> H \<Longrightarrow> visited_rows pixels W H (Suc m) =
     visited_rows pixels W H m @ row_values pixels W (H - Suc m) W"
proof -
  assume "Suc m \<le> H"
  then have "[H - Suc m..<H] = (H - Suc m) # [H - m..<H]"
    by (simp add: upt_conv_Cons Suc_diff_Suc)
  then show ?thesis by (simp add: visited_rows_def)
qed

lemma row_loop:
  assumes "foldM (\<lambda>row. foldM (classify_pixel luma name palette (w, h) pixels row) [0..<nat w])
             (rev [nat h - m..<nat h]) ([], []) = Inr (R, E)"
    and "m \<le> nat h"
  shows "R = concat (map (color_quad luma name palette) (visited_rows pixels (nat w) (nat h) m)) \<and>
         E = emission name palette (visited_rows pixels (nat w) (nat h) m) \<and>
         (\<forall>row clm. nat h - m \<le> row \<and> row < nat h \<and> clm < nat w \<longrightarrow> row * nat w + clm < length pixels)"
  using assms
proof (induction m arbitrary: R E)
  case 0
  then show ?case by (simp add: visited_rows_def emission_def)
next
  case (Suc m)
  let ?r = "nat h - Suc m"
  have up: "[?r..<nat h] = ?r # [nat h - m..<nat h]"
    using Suc.prems(2) by (simp add: upt_conv_Cons Suc_diff_Suc)
  from Suc.prems(1) obtain R1 E1 where
    pre: "foldM (\<lambda>row. foldM (classify_pixel luma name palette (w, h) pixels row) [0..<nat w])
             (rev [nat h - m..<nat h]) ([], []) = Inr (R1, E1)" and
    last: "foldM (classify_pixel luma name palette (w, h) pixels ?r) [0..<nat w] (R1, E1) = Inr (R, E)"
    unfolding up by (auto simp: foldM_snoc_Inr)
  from Suc.IH [OF pre] Suc.prems(2)
  have R1: "R1 = concat (map (color_quad luma name palette) (visited_rows pixels (nat w) (nat h) m))"
    and E1: "E1 = emission name palette (visited_rows pixels (nat w) (nat h) m)"
    and rng: "\<forall>row clm. nat h - m \<le> row \<and> row < nat h \<and> clm < nat w \<longrightarrow> row * nat w + clm < length pixels"
    by simp_all
  have rh: "int ?r < h" using Suc.prems(2) by linarith
  have "nat (h - int ?r - 1) = m" using Suc.prems(2) by linarith
  then have len: "length (visited_rows pixels (nat w) (nat h) m) = nat (h - int ?r - 1) * nat w"
    using Suc.prems(2) by (simp add: length_visited_rows)
  from column_loop [OF last [unfolded E1] order_refl rh len]
  have R: "R = R1 @ concat (map (color_quad luma name palette) (row_values pixels (nat w) ?r (nat w)))"
    and E: "E = emission name palette (visited_rows pixels (nat w) (nat h) m @ row_values pixels (nat w) ?r (nat w))"
    and rng': "\<forall>clm<nat w. ?r * nat w + clm < length pixels"
    by simp_all
  have cover: "\<And>row. nat h - Suc m \<le> row \<Longrightarrow> row = ?r \<or> nat h - m \<le> row"
    using Suc.prems(2) by linarith
  show ?case
    using R E R1 rng rng' cover Suc.prems(2) by (auto simp: visited_rows_Suc)
qed

lemma indexed_to_rgba_result:
  assumes "indexed_to_rgba luma name palette (w, h) pixels = Inr (R, E)"
  shows "R = concat (map (color_quad luma name palette) (visited (w, h) pixels))"
    and "E = emission name palette (visited (w, h) pixels)"
    and "row < nat h \<Longrightarrow> clm < nat w \<Longrightarrow> row * nat w + clm < length pixels"
  using row_loop [of luma name palette w h pixels "nat h" R E] assms
  by (simp_all add: indexed_to_rgba_def visited_def)

lemma length_color_of:
  "length palette = 768 \<Longrightarrow> v < 256 \<Longrightarrow> length (color_of palette v) = 3"
  by (simp add: color_of_def)

lemma length_color_quad:
  "length palette = 768 \<Longrightarrow> v < 256 \<Longrightarrow> length (color_quad luma name palette v) = 4"
  by (simp add: color_quad_def length_color_of)

lemma length_emit_quad:
  "length palette = 768 \<Longrightarrow> v < 256 \<Longrightarrow> length (emit_quad name palette v) = 4"
  by (simp add: emit_quad_def length_color_of)

lemma row_values_byte: "v \<in> set (row_values pixels W row n) \<Longrightarrow> v < 256"
proof -
  assume "v \<in> set (row_values pixels W row n)"
  then obtain px :: byte where "v = unat px"
    by (auto simp: row_values_def)
  moreover have "unat px < 2 ^ LENGTH(8)"
    by (rule unsigned_less)
  ultimately show ?thesis by simp
qed

lemma visited_byte: "v \<in> set (visited sz pixels) \<Longrightarrow> v < 256"
  by (auto simp: visited_def visited_rows_def dest: row_values_byte)

lemma length_visited: "length (visited (w, h) pixels) = nat h * nat w"
  by (simp add: visited_def length_visited_rows)

lemma concat_blocks_length:
  "\<forall>x\<in>set xs. length (f x) = n \<Longrightarrow> length (concat (map f xs)) = length xs * n"
  by (induction xs) simp_all

lemma concat_blocks_nth:
  "\<forall>x\<in>set xs. length (f x) = n \<Longrightarrow> i < length xs \<Longrightarrow> c < n \<Longrightarrow>
   concat (map f xs) ! (i * n + c) = f (xs ! i) ! c"
proof (induction xs arbitrary: i)
  case Nil
  then show ?case by simp
next
  case (Cons x xs)
  show ?case
  proof (cases i)
    case 0
    then show ?thesis using Cons.prems by (simp add: nth_append)
  next
    case (Suc j)
    have "concat (map f (x # xs)) ! (i * n + c) = concat (map f xs) ! (j * n + c)"
      using Cons.prems(1) Suc by (simp add: nth_append)
    also have "\<dots> = f (xs ! j) ! c"
      using Cons.prems Suc by (intro Cons.IH) simp_all
    finally show ?thesis using Suc by simp
  qed
qed

lemma concat_blocks_take_drop:
  "\<forall>x\<in>set xs. length (f x) = n \<Longrightarrow> i < length xs \<Longrightarrow>
   take n (drop (n * i) (concat (map f xs))) = f (xs ! i)"
proof (induction xs arbitrary: i)
  case Nil
  then show ?case by simp
next
  case (Cons x xs)
  show ?case
  proof (cases i)
    case 0
    then show ?thesis using Cons.prems by simp
  next
    case (Suc j)
    have "n * i = length (f x) + n * j"
      using Cons.prems(1) Suc by simp
    then have "take n (drop (n * i) (concat (map f (x # xs)))) =
               take n (drop (n * j) (concat (map f xs)))"
      by simp
    also have "\<dots> = f (xs ! j)"
      using Cons.prems Suc by (intro Cons.IH) simp_all
    finally show ?thesis using Suc by simp
  qed
qed

lemma visited_nth:
  assumes "r < nat h" and "c < nat w"
  shows "visited (w, h) pixels ! ((nat h - Suc r) * nat w + c) = unat (pixels ! (r * nat w + c))"
proof -
  let ?H = "nat h" and ?W = "nat w"
  let ?i = "?H - Suc r"
  have i: "?i < length (rev [0..<?H])" using assms(1) by simp
  have row: "rev [0..<?H] ! ?i = r"
    using assms(1) by (simp add: rev_nth)
  have "visited (w, h) pixels ! (?i * ?W + c) =
        row_values pixels ?W (rev [0..<?H] ! ?i) ?W ! c"
    unfolding visited_def visited_rows_def fst_conv snd_conv diff_self_eq_0
    by (rule concat_blocks_nth) (use i assms(2) in \<open>simp_all add: length_row_values\<close>)
  also have "\<dots> = unat (pixels ! (r * ?W + c))"
    unfolding row using assms(2) by (simp add: row_values_def)
  finally show ?thesis .
qed

lemma flipped_position: "r < H \<Longrightarrow> c < W \<Longrightarrow> (H - Suc r) * W + c < H * (W::nat)"
proof -
  assume r: "r < H" and c: "c < W"
  have "(H - Suc r) * W + c < Suc (H - Suc r) * W" using c by simp
  also have "\<dots> \<le> H * W" using r by (intro mult_le_mono1) simp
  finally show ?thesis .
qed

lemma rgba_at:
  assumes "indexed_to_rgba luma name palette (w, h) pixels = Inr (R, E)"
    and "length palette = 768" and "r < nat h" and "c < nat w"
  shows "take 4 (drop (4 * ((nat h - Suc r) * nat w + c)) R) =
         color_quad luma name palette (unat (pixels ! (r * nat w + c)))"
proof -
  let ?k = "(nat h - Suc r) * nat w + c"
  have k: "?k < length (visited (w, h) pixels)"
    using flipped_position [OF assms(3,4)] by (simp add: length_visited)
  have "take 4 (drop (4 * ?k) R) = color_quad luma name palette (visited (w, h) pixels ! ?k)"
    unfolding indexed_to_rgba_result(1) [OF assms(1)]
    by (rule concat_blocks_take_drop) (use k assms(2) in \<open>auto simp: length_color_quad visited_byte\<close>)
  then show ?thesis
    unfolding visited_nth [OF assms(3,4)] .
qed

lemma emit_at:
  assumes "indexed_to_rgba luma name palette (w, h) pixels = Inr (R, E)"
    and "length palette = 768" and "r < nat h" and "c < nat w" and "E \<noteq> []"
  shows "take 4 (drop (4 * ((nat h - Suc r) * nat w + c)) E) =
         emit_quad name palette (unat (pixels ! (r * nat w + c)))"
proof -
  let ?k = "(nat h - Suc r) * nat w + c"
  have k: "?k < length (visited (w, h) pixels)"
    using flipped_position [OF assms(3,4)] by (simp add: length_visited)
  have E: "E = concat (map (emit_quad name palette) (visited (w, h) pixels))"
    using indexed_to_rgba_result(2) [OF assms(1)] assms(5)
    by (simp add: emission_def split: if_splits)
  have "take 4 (drop (4 * ?k) E) = emit_quad name palette (visited (w, h) pixels ! ?k)"
    unfolding E
    by (rule concat_blocks_take_drop) (use k assms(2) in \<open>auto simp: length_emit_quad visited_byte\<close>)
  then show ?thesis
    unfolding visited_nth [OF assms(3,4)] .
qed

lemma rgba_length:
  assumes "indexed_to_rgba luma name palette (w, h) pixels = Inr (R, E)"
    and "length palette = 768"
  shows "length R = nat h * nat w * 4" and "E \<noteq> [] \<Longrightarrow> length E = nat h * nat w * 4"
proof -
  show "length R = nat h * nat w * 4"
    unfolding indexed_to_rgba_result(1) [OF assms(1)]
    using concat_blocks_length [of "visited (w, h) pixels" "color_quad luma name palette" 4]
    by (simp add: length_color_quad visited_byte assms(2) length_visited)
  assume "E \<noteq> []"
  then have E: "E = concat (map (emit_quad name palette) (visited (w, h) pixels))"
    using indexed_to_rgba_result(2) [OF assms(1)]
    by (simp add: emission_def split: if_splits)
  show "length E = nat h * nat w * 4"
    unfolding E
    using concat_blocks_length [of "visited (w, h) pixels" "emit_quad name palette" 4]
    by (simp add: length_emit_quad visited_byte assms(2) length_visited)
qed

lemma set_visited:
  "set (visited (w, h) pixels) =
   {v. \<exists>r c. r < nat h \<and> c < nat w \<and> v = unat (pixels ! (r * nat w + c))}"
  by (auto simp: visited_def visited_rows_def row_values_def) blast

lemma glow_exists:
  "list_ex (glows name) (visited (w, h) pixels) \<longleftrightarrow>
   (\<exists>r c. r < nat h \<and> c < nat w \<and> glows name (unat (pixels ! (r * nat w + c))))"
  unfolding list_ex_iff set_visited by blast

lemma length_pal_float: "length pal_float = 768"
  by (simp add: pal_float_def quake1palette_def)

lemma quad_alpha:
  "length palette = 768 \<Longrightarrow> v < 256 \<Longrightarrow>
   color_quad luma name palette v ! 3 = (if masked name v then 0 else 1)"
  by (auto simp: color_quad_def nth_append length_color_of glows_def)

lemma byte_255: "(px :: byte) = 255 \<longleftrightarrow> unat px = 255"
  by (simp add: word_unat_eq_iff)

lemma single_pixel:
  "name \<noteq> [] \<Longrightarrow>
   indexed_to_rgba luma name palette (1, 1) [px] =
     Inr (color_quad luma name palette (unat px), emission name palette [unat px])"
  by (cases name)
     (auto simp: indexed_to_rgba_def classify_pixel_def bind_def getitem_def Let_def color_quad_def
        emission_def emit_quad_def glows_def masked_def color_of_def startswith_def)

text \<open>Evaluation of the loops on small images with the default palette.\<close>

lemma upt_0_numeral: "[0..<numeral n] = [0..<pred_numeral n] @ [pred_numeral n]"
  by (simp add: numeral_eq_Suc)

lemma color_0: "take 3 pal_float = [0, 0, 0]"
  by (simp add: pal_float_def quake1palette_def)

lemma color_15: "take 3 (drop 45 pal_float) = [47 / 51, 47 / 51, 47 / 51]"
  by (simp add: pal_float_def quake1palette_def)

lemma color_230: "take 3 (drop 690 pal_float) = [49 / 85, 31 / 255, 7 / 255]"
  by (simp add: pal_float_def quake1palette_def)

lemma color_255: "take 3 (drop 765 pal_float) = [53 / 85, 91 / 255, 83 / 255]"
  by (simp add: pal_float_def quake1palette_def)

lemmas pixel_eval = indexed_to_rgba_def classify_pixel_def bind_def getitem_def startswith_def
  Let_def upt_0_numeral color_0 color_15 color_230 color_255

section \<open>Claims on the pixel classifier\<close>

text \<open>
  C2. For every decoded index buffer and every pixel, the alpha written to the colour buffer
  for that pixel is 0 if and only if its index is 255 and the name begins with \<open>{\<close>, and
  it is 1 otherwise. The pixel of source row \<open>r\<close> and column \<open>c\<close> is the pixel number
  \<open>(h - 1 - r) * w + c\<close> of the output, and its alpha is the fourth of its four values.
\<close>

theorem alpha_zero_iff_masked:
  assumes "indexed_to_rgba luma name palette (w, h) pixels = Inr (pix_rgba, pix_emit)"
    and "length palette = 768" and "r < nat h" and "c < nat w"
  shows "pix_rgba ! (4 * ((nat h - 1 - r) * nat w + c) + 3) =
           (if pixels ! (r * nat w + c) = 255 \<and> startswith name ''{'' then 0 else 1)"
proof -
  let ?k = "(nat h - Suc r) * nat w + c"
  let ?v = "unat (pixels ! (r * nat w + c))"
  have v: "?v < 256"
    using unsigned_less [of "pixels ! (r * nat w + c)", where 'a = nat] by simp
  have len: "length pix_rgba = nat h * nat w * 4"
    by (rule rgba_length(1) [OF assms(1,2)])
  have k: "4 * ?k + 3 < length pix_rgba"
    using flipped_position [OF assms(3,4)] unfolding len by simp
  have "pix_rgba ! (4 * ?k + 3) = take 4 (drop (4 * ?k) pix_rgba) ! 3"
    using k by simp
  also have "\<dots> = color_quad luma name palette ?v ! 3"
    by (simp only: rgba_at [OF assms])
  also have "\<dots> = (if masked name ?v then 0 else 1)"
    by (rule quad_alpha [OF assms(2) v])
  finally show ?thesis
    by (simp add: masked_def byte_255)
qed

text \<open>
  The witness: index 255 in \<open>{fence\<close> gives alpha 0, the same index in \<open>metal1\<close> gives
  alpha 1.
\<close>

theorem alpha_zero_iff_masked_witness:
  "indexed_to_rgba False ''{fence'' pal_float (1, 1) [255] = Inr ([53 / 85, 91 / 255, 83 / 255, 0], []) \<and>
   [53 / 85, 91 / 255, 83 / 255, 0 :: rat] ! (4 * ((nat 1 - 1 - 0) * nat 1 + 0) + 3) = 0 \<and>
   indexed_to_rgba False ''metal1'' pal_float (1, 1) [255] =
     Inr ([53 / 85, 91 / 255, 83 / 255, 1], [53 / 85, 91 / 255, 83 / 255, 1]) \<and>
   [53 / 85, 91 / 255, 83 / 255, 1 :: rat] ! (4 * ((nat 1 - 1 - 0) * nat 1 + 0) + 3) = 1"
proof -
  have fence: "indexed_to_rgba False ''{fence'' pal_float (1, 1) [255] =
      Inr ([53 / 85, 91 / 255, 83 / 255, 0], [])"
    by (simp add: pixel_eval)
  have metal: "indexed_to_rgba False ''metal1'' pal_float (1, 1) [255] =
      Inr ([53 / 85, 91 / 255, 83 / 255, 1], [53 / 85, 91 / 255, 83 / 255, 1])"
    by (simp add: pixel_eval)
  show ?thesis
    using alpha_zero_iff_masked [OF fence length_pal_float, of 0 0]
      alpha_zero_iff_masked [OF metal length_pal_float, of 0 0] fence metal
    by (simp add: startswith_def)
qed

text \<open>
  C3. A pixel whose index is at least 224, in a texture whose name starts with neither
  \<open>sky\<close> nor \<open>*\<close>, and that is not transparent (not index 255 under a name beginning with
  \<open>{\<close>), puts its palette colour with alpha 1 into the emission buffer at its position;
  the colour buffer holds the same four values there when cut-out-luma is off, and exactly
  (0, 0, 0, 1) when it is on.
\<close>

theorem fullbright_goes_to_emission:
  assumes "indexed_to_rgba luma name palette (w, h) pixels = Inr (pix_rgba, pix_emit)"
    and "length palette = 768" and "r < nat h" and "c < nat w"
    and "224 \<le> unat (pixels ! (r * nat w + c))"
    and "\<not> startswith name ''sky''" and "\<not> startswith name ''*''"
    and "\<not> (pixels ! (r * nat w + c) = 255 \<and> startswith name ''{'')"
  shows "take 4 (drop (4 * ((nat h - 1 - r) * nat w + c)) pix_emit) =
           take 3 (drop (unat (pixels ! (r * nat w + c)) * 3) palette) @ [1] \<and>
         take 4 (drop (4 * ((nat h - 1 - r) * nat w + c)) pix_rgba) =
           (if luma then [0, 0, 0, 1]
            else take 4 (drop (4 * ((nat h - 1 - r) * nat w + c)) pix_emit))"
proof -
  let ?v = "unat (pixels ! (r * nat w + c))"
  have g: "glows name ?v"
    using assms(5-8) by (simp add: glows_def masked_def byte_255)
  then have "list_ex (glows name) (visited (w, h) pixels)"
    unfolding glow_exists using assms(3,4) by blast
  then have ne: "pix_emit \<noteq> []"
    using indexed_to_rgba_result(2) [OF assms(1)] by (simp add: emission_empty_iff)
  have e: "take 4 (drop (4 * ((nat h - Suc r) * nat w + c)) pix_emit) = emit_quad name palette ?v"
    by (rule emit_at [OF assms(1-4) ne])
  have q: "take 4 (drop (4 * ((nat h - Suc r) * nat w + c)) pix_rgba) = color_quad luma name palette ?v"
    by (rule rgba_at [OF assms(1-4)])
  have m: "\<not> masked name ?v"
    using g by (simp add: glows_def)
  show ?thesis
    using e q g m by (simp add: emit_quad_def color_quad_def color_of_def)
qed

theorem fullbright_goes_to_emission_witness:
  "indexed_to_rgba False ''metal1'' pal_float (1, 1) [230] =
     Inr ([49 / 85, 31 / 255, 7 / 255, 1], [49 / 85, 31 / 255, 7 / 255, 1]) \<and>
   indexed_to_rgba True ''metal1'' pal_float (1, 1) [230] =
     Inr ([0, 0, 0, 1], [49 / 85, 31 / 255, 7 / 255, 1]) \<and>
   take 4 (drop (4 * ((nat 1 - 1 - 0) * nat 1 + 0)) [49 / 85, 31 / 255, 7 / 255, 1 :: rat]) =
     take 3 (drop (unat ([230 :: byte] ! (0 * nat 1 + 0)) * 3) pal_float) @ [1]"
proof -
  have off: "indexed_to_rgba False ''metal1'' pal_float (1, 1) [230] =
      Inr ([49 / 85, 31 / 255, 7 / 255, 1], [49 / 85, 31 / 255, 7 / 255, 1])"
    by (simp add: pixel_eval)
  have on: "indexed_to_rgba True ''metal1'' pal_float (1, 1) [230] =
      Inr ([0, 0, 0, 1], [49 / 85, 31 / 255, 7 / 255, 1])"
    by (simp add: pixel_eval)
  have "take 4 (drop (4 * ((nat 1 - 1 - 0) * nat 1 + 0)) [49 / 85, 31 / 255, 7 / 255, 1 :: rat]) =
     take 3 (drop (unat ([230 :: byte] ! (0 * nat 1 + 0)) * 3) pal_float) @ [1]"
    using fullbright_goes_to_emission [OF on length_pal_float, of 0 0]
    by (simp add: startswith_def)
  then show ?thesis
    using off on by simp
qed

text \<open>
  C4. For every decoded image of non-negative width and height the colour buffer has
  exactly width * height * 4 values, and an emission buffer, when there is one, has the same
  length. There is one exactly when some pixel glows, and it holds (0, 0, 0, 1) at every
  pixel that does not glow, before the first glowing pixel (the back-fill) as after it.
\<close>

theorem buffers_cover_the_image:
  assumes "indexed_to_rgba luma name palette (w, h) pixels = Inr (pix_rgba, pix_emit)"
    and "length palette = 768" and "0 \<le> w" and "0 \<le> h"
  shows "int (length pix_rgba) = w * h * 4 \<and>
         (pix_emit \<noteq> [] \<longrightarrow> length pix_emit = length pix_rgba) \<and>
         ((pix_emit \<noteq> []) =
            (\<exists>r c. r < nat h \<and> c < nat w \<and> glows name (unat (pixels ! (r * nat w + c))))) \<and>
         (\<forall>r c. pix_emit \<noteq> [] \<and> r < nat h \<and> c < nat w \<and>
                 \<not> glows name (unat (pixels ! (r * nat w + c))) \<longrightarrow>
                 take 4 (drop (4 * ((nat h - 1 - r) * nat w + c)) pix_emit) = [0, 0, 0, 1])"
proof -
  have "int (length pix_rgba) = int (nat h * nat w * 4)"
    by (simp only: rgba_length(1) [OF assms(1,2)])
  also have "\<dots> = w * h * 4"
    using assms(3,4) by simp
  finally have a: "int (length pix_rgba) = w * h * 4" .
  have b: "pix_emit \<noteq> [] \<longrightarrow> length pix_emit = length pix_rgba"
    using rgba_length [OF assms(1,2)] by simp
  have c: "(pix_emit \<noteq> []) =
      (\<exists>r c. r < nat h \<and> c < nat w \<and> glows name (unat (pixels ! (r * nat w + c))))"
    using indexed_to_rgba_result(2) [OF assms(1)]
    by (simp add: emission_empty_iff glow_exists)
  have d: "\<forall>r c. pix_emit \<noteq> [] \<and> r < nat h \<and> c < nat w \<and>
                 \<not> glows name (unat (pixels ! (r * nat w + c))) \<longrightarrow>
                 take 4 (drop (4 * ((nat h - 1 - r) * nat w + c)) pix_emit) = [0, 0, 0, 1]"
    using emit_at [OF assms(1,2)] by (simp add: emit_quad_def)
  show ?thesis
    using a b c d by blast
qed

theorem buffers_cover_the_image_witness:
  "indexed_to_rgba False ''metal1'' pal_float (2, 1) [0, 230] =
     Inr ([0, 0, 0, 1, 49 / 85, 31 / 255, 7 / 255, 1], [0, 0, 0, 1, 49 / 85, 31 / 255, 7 / 255, 1]) \<and>
   int (length [0, 0, 0, 1, 49 / 85, 31 / 255, 7 / 255, 1 :: rat]) = 2 * 1 * 4"
proof -
  have run: "indexed_to_rgba False ''metal1'' pal_float (2, 1) [0, 230] =
     Inr ([0, 0, 0, 1, 49 / 85, 31 / 255, 7 / 255, 1], [0, 0, 0, 1, 49 / 85, 31 / 255, 7 / 255, 1])"
    by (simp add: pixel_eval)
  show ?thesis
    using buffers_cover_the_image [OF run length_pal_float] run by simp
qed

text \<open>
  C5. The output is flipped vertically: the four values the loop body makes of the source
  pixel at row \<open>r\<close> (counted from the top) and column \<open>c\<close> stand at row \<open>h - 1 - r\<close>,
  column \<open>c\<close> of the colour buffer, and of the emission buffer when there is one. The
  bottom row of the source (\<open>r = h - 1\<close>) is the first row of the output.
\<close>

theorem rows_are_flipped:
  assumes "indexed_to_rgba luma name palette (w, h) pixels = Inr (pix_rgba, pix_emit)"
    and "length palette = 768" and "r < nat h" and "c < nat w"
  shows "take 4 (drop (4 * ((nat h - 1 - r) * nat w + c)) pix_rgba) =
           color_quad luma name palette (unat (pixels ! (r * nat w + c))) \<and>
         (pix_emit \<noteq> [] \<longrightarrow>
          take 4 (drop (4 * ((nat h - 1 - r) * nat w + c)) pix_emit) =
            emit_quad name palette (unat (pixels ! (r * nat w + c))))"
  using rgba_at [OF assms] emit_at [OF assms] by simp

text \<open>
  The witness: an image one pixel wide and two high, indices 0 (top) and 15 (bottom); the
  output starts with the colour of index 15.
\<close>

theorem rows_are_flipped_witness:
  "indexed_to_rgba False ''metal1'' pal_float (1, 2) [0, 15] =
     Inr ([47 / 51, 47 / 51, 47 / 51, 1, 0, 0, 0, 1], []) \<and>
   take 4 (drop (4 * ((nat 2 - 1 - 1) * nat 1 + 0)) [47 / 51, 47 / 51, 47 / 51, 1, 0, 0, 0, 1 :: rat]) =
     color_quad False ''metal1'' pal_float (unat ([0, 15 :: byte] ! (1 * nat 1 + 0))) \<and>
   color_quad False ''metal1'' pal_float 15 = [47 / 51, 47 / 51, 47 / 51, 1]"
proof -
  have run: "indexed_to_rgba False ''metal1'' pal_float (1, 2) [0, 15] =
     Inr ([47 / 51, 47 / 51, 47 / 51, 1, 0, 0, 0, 1], [])"
    by (simp add: pixel_eval)
  have q: "color_quad False ''metal1'' pal_float 15 = [47 / 51, 47 / 51, 47 / 51, 1]"
    by (simp add: color_quad_def glows_def masked_def color_of_def startswith_def color_15)
  show ?thesis
    using rows_are_flipped [OF run length_pal_float, of 1 0] run q by simp
qed

section \<open>The loops return on every image that is there\<close>

lemma foldM_total:
  "(\<And>x s. x \<in> set xs \<Longrightarrow> \<exists>s'. f x s = Inr s') \<Longrightarrow> \<exists>s'. foldM f xs s = Inr s'"
proof (induction xs arbitrary: s)
  case Nil
  then show ?case by simp
next
  case (Cons x xs)
  from Cons.prems [of x s] obtain s1 where "f x s = Inr s1" by auto
  moreover from Cons.IH [of s1] Cons.prems obtain s2 where "foldM f xs s1 = Inr s2" by auto
  ultimately show ?case by (simp add: bind_def)
qed

lemma classify_pixel_total:
  assumes "name \<noteq> []" and "0 \<le> w" and "row * nat w + clm < length pixels"
  shows "\<exists>res. classify_pixel luma name palette (w, h) pixels row clm acc = Inr res"
proof -
  have eq: "int row * w + int clm = int (row * nat w + clm)"
    using assms(2) by simp
  have "getitem pixels (int (row * nat w + clm)) = Inr (pixels ! (row * nat w + clm))"
    using assms(3) by (simp only: getitem_int)
  then have px: "getitem pixels (int row * w + int clm) = Inr (pixels ! (row * nat w + clm))"
    by (simp only: eq)
  obtain c cs where name: "name = c # cs"
    using assms(1) by (cases name) auto
  have n0: "getitem name 0 = Inr c"
    by (simp add: getitem_def name)
  show ?thesis
    by (cases acc) (simp add: classify_pixel_def px n0 bind_def Let_def)
qed

lemma indexed_to_rgba_total:
  assumes "name \<noteq> []" and "nat h * nat w \<le> length pixels"
  shows "\<exists>R E. indexed_to_rgba luma name palette (w, h) pixels = Inr (R, E)"
proof -
  have "\<exists>s'. foldM (\<lambda>row. foldM (classify_pixel luma name palette (w, h) pixels row) [0..<nat w])
          (rev [0..<nat h]) ([], []) = Inr s'"
  proof (rule foldM_total)
    fix row s
    assume "row \<in> set (rev [0..<nat h])"
    then have row: "row < nat h" by simp
    show "\<exists>s'. foldM (classify_pixel luma name palette (w, h) pixels row) [0..<nat w] s = Inr s'"
    proof (rule foldM_total)
      fix clm acc
      assume "clm \<in> set [0..<nat w]"
      then have clm: "clm < nat w" by simp
      have "row * nat w + clm < Suc row * nat w" using clm by simp
      also have "\<dots> \<le> nat h * nat w" using row by (intro mult_le_mono1) simp
      finally have "row * nat w + clm < length pixels" using assms(2) by simp
      moreover have "0 \<le> w" using clm by simp
      ultimately show "\<exists>res. classify_pixel luma name palette (w, h) pixels row clm acc = Inr res"
        using assms(1) by (intro classify_pixel_total)
    qed
  qed
  then show ?thesis
    by (auto simp: indexed_to_rgba_def)
qed

section \<open>Running the importer on the example archives\<close>



lemma is_frame_plus: "is_frame ''+'' = Inl IndexError"
  by (simp add: is_frame_def getitem_def bind_def)

lemma char_of_bits:
  "char_of (n::nat) = Char (odd n) (odd (n div 2)) (odd (n div 4)) (odd (n div 8))
     (odd (n div 16)) (odd (n div 32)) (odd (n div 64)) (odd (n div 128))"
  by (simp add: char_of_def bit_iff_odd_drop_bit drop_bit_eq_div)

lemma read_wad2_entries_numeral:
  "read_wad2_entries bs (numeral k) pos =
     bind (unpack_entry (take 32 (drop pos bs))) (\<lambda>e.
     bind (read_wad2_entries bs (pred_numeral k) (pos + 32)) (\<lambda>es. Inr (e # es)))"
  by (simp add: numeral_eq_Suc)

lemmas struct_eval = bind_def wad_seek_def wad_read_def cname_def decode_ascii_def
  unpack_miptex_def unpack_2l_def unpack_l_def unpack_entry_def unpack_768B_def i32_le_def
  u32_le_def bytes_of_def Let_def char_of_bits read_wad2_entries_numeral

lemmas wad_eval = wad2_def miptex_def field16_def le32_def

lemmas name_eval = lower_def lower_char_def char_of_bits lump_name_def getitem_def
  startswith_def endswith_def



lemma black_pixel:
  "name \<noteq> [] \<Longrightarrow> indexed_to_rgba luma name pal_float (1, 1) [0] = Inr ([0, 0, 0, 1], [])"
  by (simp add: single_pixel color_quad_def emission_def glows_def masked_def color_of_def
      pal_float_def quake1palette_def)





lemma plus_dir:
  "read_wadentries (content plus_file) =
     Inr (Some [\<lparr>e_offset = 12, e_type = Some 68, e_name = field16 ''+''\<rparr>])"
  by (simp add: plus_file_def wad_eval read_wadentries_def struct_eval)

lemma plus_decode:
  "decode_lump env0 plus_file False \<lparr>e_offset = 12, e_type = Some 68, e_name = field16 ''+''\<rparr> =
   Inr (Indexed ''+'' (1, 1) [0] pal_float, [])"
  by (simp add: plus_file_def wad_eval decode_lump_def struct_eval)

lemma env0_options:
  "option_cont env0" "option_assets env0" "option_seq env0" "\<not> option_rel env0"
  "\<not> option_luma env0" "image_depth env0 p = 24" "\<not> isfile env0 p"
  by (simp_all add: env0_def)

lemma env0_suffix: "emit_suffix env0 = ''_luma''" "emit_suffix (env0\<lparr>option_seq := b\<rparr>) = ''_luma''"
  by (simp_all add: env0_def emit_suffix_def)

lemma tex_directory: "split backslash (directory env0) = [''C:'', ''tex'', []]"
  by (simp add: env0_def backslash_def)

lemma replicate_numeral: "replicate (numeral n) x = x # replicate (pred_numeral n) x"
  by (simp add: numeral_eq_Suc)

lemma take_3_pal_float: "take 3 pal_float = [0, 0, 0]"
  by (simp add: pal_float_def quake1palette_def)

lemma pal_name: "fname pal_file = ''p.wad''"
  by (simp add: pal_file_def)

lemma pal_dir:
  "read_wadentries (content pal_file) =
     Inr (Some [\<lparr>e_offset = 12, e_type = Some 64, e_name = field16 ''PAL''\<rparr>,
                \<lparr>e_offset = 780, e_type = Some 68, e_name = field16 ''TEX''\<rparr>])"
  by (simp add: pal_file_def pal_wad_def wad_eval read_wadentries_def struct_eval)

lemma pal_decode:
  "decode_lump env0 pal_file False \<lparr>e_offset = 12, e_type = Some 64, e_name = field16 ''PAL''\<rparr> =
     Inr (Indexed ''PAL'' (16, 16) (map of_nat [0..<256]) (replicate 768 1), [])"
  by (simp add: pal_file_def pal_wad_def wad_eval decode_lump_def struct_eval)

lemma tex_decode:
  "decode_lump env0 pal_file False \<lparr>e_offset = 780, e_type = Some 68, e_name = field16 ''TEX''\<rparr> =
     Inr (Indexed ''TEX'' (1, 1) [0] pal_float, [])"
  by (simp add: pal_file_def pal_wad_def wad_eval decode_lump_def struct_eval)

lemma pal_image:
  "\<exists>R E. indexed_to_rgba False ''pal'' (replicate 768 1) (16, 16) (map of_nat [0..<256]) = Inr (R, E)
     \<and> E \<noteq> []"
proof -
  obtain R E where run:
    "indexed_to_rgba False ''pal'' (replicate 768 1) (16, 16) (map of_nat [0..<256]) = Inr (R, E)"
    using indexed_to_rgba_total [of "''pal''" 16 16 "map of_nat [0..<256]" False "replicate 768 1"]
    by auto
  have "glows ''pal'' (unat ((map of_nat [0..<256] :: byte list) ! (15 * nat 16 + 15)))"
    by (simp add: glows_def masked_def startswith_def)
  then have "list_ex (glows ''pal'') (visited (16, 16) (map of_nat [0..<256]))"
    unfolding glow_exists by (intro exI [of _ 15] conjI) simp_all
  then have "E \<noteq> []"
    using indexed_to_rgba_result(2) [OF run] by (simp add: emission_empty_iff)
  with run show ?thesis by blast
qed

lemma pal_then_tex:
  "\<exists>R E. foldM (import_lump env0 pal_file False ''p.wad'')
       [\<lparr>e_offset = 12, e_type = Some 64, e_name = field16 ''PAL''\<rparr>,
        \<lparr>e_offset = 780, e_type = Some 68, e_name = field16 ''TEX''\<rparr>]
       \<lparr>materials = [], images = [], objects = [(''p.wad'', [])], anim_seqs = [], warnings = []\<rparr> =
     Inr \<lparr>materials =
            [\<lparr>mat_name = ''pal'', mat_base = ImageNode ''pal'', mat_emit = Some ''pal_luma'',
               mat_tags = Some [''p.wad'']\<rparr>,
             \<lparr>mat_name = ''tex'', mat_base = ImageNode ''tex'', mat_emit = None,
               mat_tags = Some [''p.wad'']\<rparr>],
           images =
            [\<lparr>img_name = ''pal'', img_data = Pixels 16 16 R\<rparr>,
             \<lparr>img_name = ''pal_luma'', img_data = Pixels 16 16 E\<rparr>,
             \<lparr>img_name = ''tex'', img_data = Pixels 1 1 [0, 0, 0, 1]\<rparr>],
           objects = [(''p.wad'', [''pal'', ''tex''])], anim_seqs = [], warnings = []\<rparr>"
proof -
  from pal_image obtain R E where run:
    "indexed_to_rgba False ''pal'' (replicate 768 1) (16, 16) (map of_nat [0..<256]) = Inr (R, E)"
    and E: "E \<noteq> []" by blast
  have first: "import_lump env0 pal_file False ''p.wad''
       \<lparr>e_offset = 12, e_type = Some 64, e_name = field16 ''PAL''\<rparr>
       \<lparr>materials = [], images = [], objects = [(''p.wad'', [])], anim_seqs = [], warnings = []\<rparr> =
     Inr \<lparr>materials =
            [\<lparr>mat_name = ''pal'', mat_base = ImageNode ''pal'', mat_emit = Some ''pal_luma'',
               mat_tags = Some [''p.wad'']\<rparr>],
           images =
            [\<lparr>img_name = ''pal'', img_data = Pixels 16 16 R\<rparr>,
             \<lparr>img_name = ''pal_luma'', img_data = Pixels 16 16 E\<rparr>],
           objects = [(''p.wad'', [''pal''])], anim_seqs = [], warnings = []\<rparr>"
    by (simp add: import_lump_def pal_decode resolve_lump_def name_eval skip_unneeded_def
        has_material_def is_frame_def skip_glow_def build_images_def run E new_material_def
        slot_append_def env0_options env0_suffix bind_def Let_def del: upt_rec_numeral)
  have second: "import_lump env0 pal_file False ''p.wad''
       \<lparr>e_offset = 780, e_type = Some 68, e_name = field16 ''TEX''\<rparr>
       \<lparr>materials =
            [\<lparr>mat_name = ''pal'', mat_base = ImageNode ''pal'', mat_emit = Some ''pal_luma'',
               mat_tags = Some [''p.wad'']\<rparr>],
           images =
            [\<lparr>img_name = ''pal'', img_data = Pixels 16 16 R\<rparr>,
             \<lparr>img_name = ''pal_luma'', img_data = Pixels 16 16 E\<rparr>],
           objects = [(''p.wad'', [''pal''])], anim_seqs = [], warnings = []\<rparr> =
     Inr \<lparr>materials =
            [\<lparr>mat_name = ''pal'', mat_base = ImageNode ''pal'', mat_emit = Some ''pal_luma'',
               mat_tags = Some [''p.wad'']\<rparr>,
             \<lparr>mat_name = ''tex'', mat_base = ImageNode ''tex'', mat_emit = None,
               mat_tags = Some [''p.wad'']\<rparr>],
           images =
            [\<lparr>img_name = ''pal'', img_data = Pixels 16 16 R\<rparr>,
             \<lparr>img_name = ''pal_luma'', img_data = Pixels 16 16 E\<rparr>,
             \<lparr>img_name = ''tex'', img_data = Pixels 1 1 [0, 0, 0, 1]\<rparr>],
           objects = [(''p.wad'', [''pal'', ''tex''])], anim_seqs = [], warnings = []\<rparr>"
    by (simp add: import_lump_def tex_decode resolve_lump_def name_eval skip_unneeded_def
        has_material_def is_frame_def skip_glow_def build_images_def black_pixel new_material_def
        slot_append_def env0_options env0_suffix bind_def Let_def)
  show ?thesis
    by (intro exI [of _ R] exI [of _ E]) (simp add: first second bind_def)
qed

section \<open>Claims on the palette, on errors and on names\<close>

text \<open>
  C1, as the code has it. The claim that a palette lump sets the palette of the lumps after
  it fails: \<open>palette = pal_float\<close> is assigned at the head of every pass of the lump loop.
  What holds: every lump is decoded with the default palette, whatever came before it in the
  file, except a palette lump (type \<open>@\<close>, not named CONCHARS or CONBACK), whose own 16 by 16
  image of the indices 0 to 255 is decoded with the 256 colours read from its own 768 bytes.
\<close>

theorem palette_is_per_lump:
  assumes "decode_lump env file loose_texture wadentry = Inr (Indexed name sz pixels palette, warn)"
  shows "palette =
           (if e_type wadentry = Some 64 \<and> cname (e_name wadentry) \<noteq> Inr ''CONCHARS'' \<and>
               cname (e_name wadentry) \<noteq> Inr ''CONBACK''
            then map (\<lambda>rgb. of_nat rgb / 255)
                   (map unat (take 768 (drop (nat (e_offset wadentry)) (content file))))
            else pal_float)"
  using assms
  by (auto simp: decode_lump_def bind_Inr_iff wad_seek_def unpack_768B_def Let_def
      split: if_splits prod.splits)

theorem palette_is_per_lump_witness:
  "decode_lump env0 pal_file False \<lparr>e_offset = 780, e_type = Some 68, e_name = field16 ''TEX''\<rparr> =
     Inr (Indexed ''TEX'' (1, 1) [0] pal_float, []) \<and>
   decode_lump env0 pal_file False \<lparr>e_offset = 12, e_type = Some 64, e_name = field16 ''PAL''\<rparr> =
     Inr (Indexed ''PAL'' (16, 16) (map of_nat [0..<256]) (replicate 768 1), []) \<and>
   replicate 768 1 =
     map (\<lambda>rgb. of_nat rgb / (255 :: rat)) (map unat (take 768 (drop (nat 12) (content pal_file))))"
  using palette_is_per_lump [OF pal_decode] palette_is_per_lump [OF tex_decode] pal_decode tex_decode
  by (simp add: cname_def decode_ascii_def field16_def bytes_of_def char_of_bits)

text \<open>
  The counterexample to C1 as stated: in an archive with a palette lump of 256 white colours
  followed by a miptexture of one pixel of index 0, the miptexture is decoded with the
  default palette, and its image is the black pixel (0, 0, 0, 1) where the palette of the
  lump before it would have given (1, 1, 1, 1).
\<close>

theorem later_lump_uses_default_palette:
  "read_wadentries (content pal_file) =
     Inr (Some [\<lparr>e_offset = 12, e_type = Some 64, e_name = field16 ''PAL''\<rparr>,
                \<lparr>e_offset = 780, e_type = Some 68, e_name = field16 ''TEX''\<rparr>]) \<and>
   decode_lump env0 pal_file False \<lparr>e_offset = 12, e_type = Some 64, e_name = field16 ''PAL''\<rparr> =
     Inr (Indexed ''PAL'' (16, 16) (map of_nat [0..<256]) (replicate 768 1), []) \<and>
   decode_lump env0 pal_file False \<lparr>e_offset = 780, e_type = Some 68, e_name = field16 ''TEX''\<rparr> =
     Inr (Indexed ''TEX'' (1, 1) [0] pal_float, []) \<and>
   pal_float \<noteq> replicate 768 1 \<and>
   (\<exists>s. execute env0 [pal_file] empty_session = Inr s \<and>
        \<lparr>img_name = ''tex'', img_data = Pixels 1 1 [0, 0, 0, 1]\<rparr> \<in> set (images s)) \<and>
   indexed_to_rgba False ''tex'' (replicate 768 1) (1, 1) [0] = Inr ([1, 1, 1, 1], [])"
proof -
  have differ: "pal_float \<noteq> replicate 768 1"
  proof
    assume "pal_float = replicate 768 1"
    then have "take 3 pal_float = take 3 (replicate 768 (1 :: rat))" by simp
    then show False by (simp add: take_3_pal_float replicate_numeral)
  qed
  have white: "indexed_to_rgba False ''tex'' (replicate 768 1) (1, 1) [0] = Inr ([1, 1, 1, 1], [])"
    by (simp add: single_pixel color_quad_def emission_def glows_def masked_def color_of_def
        startswith_def replicate_numeral)
  from pal_then_tex obtain s where
    run: "foldM (import_lump env0 pal_file False ''p.wad'')
       [\<lparr>e_offset = 12, e_type = Some 64, e_name = field16 ''PAL''\<rparr>,
        \<lparr>e_offset = 780, e_type = Some 68, e_name = field16 ''TEX''\<rparr>]
       \<lparr>materials = [], images = [], objects = [(''p.wad'', [])], anim_seqs = [], warnings = []\<rparr> =
      Inr s" and
    img: "\<lparr>img_name = ''tex'', img_data = Pixels 1 1 [0, 0, 0, 1]\<rparr> \<in> set (images s)"
    by force
  have "import_file env0 pal_file (empty_session\<lparr>anim_seqs := []\<rparr>) = Inr s"
    using run
    by (simp add: import_file_def pal_dir add_container_def empty_session_def env0_options
        pal_name bind_def del: foldM.simps)
  then have "execute env0 [pal_file] empty_session = Inr (make_noodles_post s)"
    by (simp add: execute_def bind_def env0_options)
  moreover have "images (make_noodles_post s) = images s"
    by (simp add: make_noodles_post_def)
  ultimately show ?thesis
    using pal_dir pal_decode tex_decode differ white img by auto
qed




text \<open>
  C9 at an input where the code leaves the image loaded. With sequence nodes switched off,
  the loose image \<open>+1fire_luma.png\<close> (its name ends with the glow suffix) is loaded and
  then left by the \<open>continue\<close> of the frame test, which does not remove it: no material is
  made, but the image is still among the images after the import.
\<close>

theorem suffixed_frame_image_is_kept:
  "execute (env0\<lparr>option_seq := False\<rparr>) [glow_frame_png] empty_session =
     Inr \<lparr>materials = [],
           images = [\<lparr>img_name = ''+1fire_luma.png'',
                      img_data = FromFile (directory env0 @ ''+1fire_luma.png'')\<rparr>],
           objects = [(''tex'', [])], anim_seqs = [], warnings = []\<rparr> \<and>
   endswith ''+1fire_luma'' (emit_suffix (env0\<lparr>option_seq := False\<rparr>)) \<and>
   fst (loose_name (env0\<lparr>option_seq := False\<rparr>) (fname glow_frame_png)) = ''+1fire_luma''"
proof -
  let ?env = "env0\<lparr>option_seq := False\<rparr>"
  have dir: "read_wadentries (content glow_frame_png) = Inr None"
    by (simp add: glow_frame_png_def read_wadentries_def bytes_of_def)
  have name: "loose_name ?env (fname glow_frame_png) = (''+1fire_luma'', [])"
    by (simp add: loose_name_def glow_frame_png_def env0_options slice_to_def replace_char_def)
  have dec: "decode_lump ?env glow_frame_png True \<lparr>e_offset = 0, e_type = None, e_name = []\<rparr> =
      Inr (Loose ''+1fire_luma'', [])"
    by (simp add: decode_lump_def wad_seek_def cname_def decode_ascii_def bind_def name)
  have skip: "\<And>s. \<not> has_material s ''+1fire_luma'' \<Longrightarrow>
      skip_unneeded ?env glow_frame_png True ''tex'' ''+1fire_luma'' s = Inr (Next s)"
    by (simp add: skip_unneeded_def is_frame_def getitem_def bind_def)
  have lump: "\<And>s. \<not> has_material s ''+1fire_luma'' \<Longrightarrow> warnings s = [] \<Longrightarrow>
      import_lump ?env glow_frame_png True ''tex'' \<lparr>e_offset = 0, e_type = None, e_name = []\<rparr> s = Inr s"
    by (simp add: import_lump_def dec resolve_lump_def lump_name_def name_eval skip bind_def
        has_material_def)
  have cont: "getitem (split backslash (directory env0)) (- 2) = Inr ''tex''"
    by (simp add: tex_directory getitem_def)
  have imp: "import_file ?env glow_frame_png (empty_session\<lparr>anim_seqs := []\<rparr>) =
      Inr \<lparr>materials = [],
           images = [\<lparr>img_name = ''+1fire_luma.png'',
                      img_data = FromFile (directory env0 @ ''+1fire_luma.png'')\<rparr>],
           objects = [(''tex'', [])], anim_seqs = [], warnings = []\<rparr>"
    unfolding import_file_def dir
    by (simp add: bind_def env0_options cont lump has_material_def add_container_def
        empty_session_def img24_def)
      (simp add: glow_frame_png_def)
  have suffix: "endswith ''+1fire_luma'' (emit_suffix ?env)"
    by (simp add: endswith_def env0_suffix)
  show ?thesis
    using imp suffix name by (simp add: execute_def bind_def)
qed

text \<open>
  C10. The frame test reads \<open>name[1]\<close> as soon as \<open>name[0]\<close> is \<open>+\<close>: on the name \<open>+\<close>,
  which is not empty, it raises \<open>IndexError\<close>, and so does the import of every recognised
  lump of that name that is not yet a material. The lump is neither skipped nor made a
  material. The witness is an archive with one miptexture named \<open>+\<close>.
\<close>

theorem bare_plus_raises:
  assumes "decode_lump env file loose_texture wadentry = Inr (l, warn)"
    and "recognized l" and "lower (lump_name l) = ''+''" and "\<not> has_material s ''+''"
  shows "is_frame ''+'' = Inl IndexError \<and>
         import_lump env file loose_texture cont_name wadentry s = Inl IndexError"
proof -
  have "\<not> has_material (s\<lparr>warnings := warnings s @ warn\<rparr>) ''+''"
    using assms(4) by (simp add: has_material_def)
  then have "skip_unneeded env file loose_texture cont_name ''+'' (s\<lparr>warnings := warnings s @ warn\<rparr>)
      = Inl IndexError"
    by (simp add: skip_unneeded_def is_frame_plus bind_def)
  then have "resolve_lump env file loose_texture cont_name l (s\<lparr>warnings := warnings s @ warn\<rparr>)
      = Inl IndexError"
    using assms(2,3) by (cases l) (simp_all add: resolve_lump_def recognized_def bind_def)
  then show ?thesis
    using assms(1) by (simp add: import_lump_def bind_def is_frame_plus)
qed

theorem bare_plus_raises_witness:
  "decode_lump env0 plus_file False \<lparr>e_offset = 12, e_type = Some 68, e_name = field16 ''+''\<rparr> =
     Inr (Indexed ''+'' (1, 1) [0] pal_float, []) \<and>
   is_frame ''+'' = Inl IndexError \<and>
   execute env0 [plus_file] empty_session = Inl IndexError"
proof -
  let ?s = "add_container env0 (fname plus_file) (empty_session\<lparr>anim_seqs := []\<rparr>)"
  have "\<not> has_material ?s ''+''"
    by (simp add: has_material_def add_container_def empty_session_def)
  from bare_plus_raises [OF plus_decode _ _ this, of "fname plus_file"]
  have step: "is_frame ''+'' = Inl IndexError \<and>
      import_lump env0 plus_file False (fname plus_file)
        \<lparr>e_offset = 12, e_type = Some 68, e_name = field16 ''+''\<rparr> ?s = Inl IndexError"
    by (simp add: recognized_def name_eval)
  then have "import_file env0 plus_file (empty_session\<lparr>anim_seqs := []\<rparr>) = Inl IndexError"
    by (simp add: import_file_def plus_dir bind_def)
  then show ?thesis
    using step plus_decode by (simp add: execute_def bind_def)
qed

section \<open>Duplicates and sequences over a whole import\<close>













lemma slot_append_fields [simp]:
  "materials (slot_append c n s) = materials s" "images (slot_append c n s) = images s"
  "anim_seqs (slot_append c n s) = anim_seqs s" "warnings (slot_append c n s) = warnings s"
  by (simp_all add: slot_append_def)

lemma remove_image_fields [simp]:
  "materials (remove_image i s) = materials s" "anim_seqs (remove_image i s) = anim_seqs s"
  "objects (remove_image i s) = objects s" "warnings (remove_image i s) = warnings s"
  by (simp_all add: remove_image_def)













lemma add_container_materials [simp]: "materials (add_container env c s) = materials s"
  by (simp add: add_container_def)



lemma foldM_Cons_Inr:
  "foldM f (x # xs) s = Inr s' \<longleftrightarrow> (\<exists>s1. f x s = Inr s1 \<and> foldM f xs s1 = Inr s')"
  by (simp add: bind_Inr_iff)

























lemma new_material_anim_seqs [simp]:
  "anim_seqs (new_material env cont n he s) = anim_seqs s"
  by (simp add: new_material_def Let_def)




lemma add_container_anim_seqs [simp]: "anim_seqs (add_container env c s) = anim_seqs s"
  by (simp add: add_container_def)











section \<open>Claims on duplicates and on sequences\<close>







end
